theory Spec2Isabelle
  imports Main
begin

unbundle bit_operations_syntax

section \<open>Strings and bytes\<close>

text \<open>
  A Go \<^verbatim>\<open>string\<close> and a Go \<^verbatim>\<open>[]byte\<close> are both sequences of
  8-bit bytes; both are modelled as \<^typ>\<open>string\<close> (a list of 8-bit characters).
  The functions below are the ones of package \<^verbatim>\<open>strings\<close> that the server calls.
\<close>

text \<open>\<^verbatim>\<open>strings.HasPrefix(s, prefix)\<close>.\<close>

fun HasPrefix :: "string \<Rightarrow> string \<Rightarrow> bool" where
  "HasPrefix s [] = True"
| "HasPrefix [] (p # ps) = False"
| "HasPrefix (c # cs) (p # ps) = (c = p \<and> HasPrefix cs ps)"

text \<open>\<^verbatim>\<open>strings.Contains(s, substr)\<close>: some suffix of \<open>s\<close> starts with \<open>substr\<close>.\<close>

fun Contains :: "string \<Rightarrow> string \<Rightarrow> bool" where
  "Contains [] sub = (sub = [])"
| "Contains (c # cs) sub = (HasPrefix (c # cs) sub \<or> Contains cs sub)"

text \<open>
  \<^verbatim>\<open>strings.Trim(s, cutset)\<close>: every leading and every trailing byte that occurs in the
  cutset is removed (the cutsets used by the server are ASCII).
\<close>

definition Trim :: "string \<Rightarrow> string \<Rightarrow> string" where
  "Trim s cutset =
     rev (dropWhile (\<lambda>c. c \<in> set cutset) (rev (dropWhile (\<lambda>c. c \<in> set cutset) s)))"

text \<open>\<^verbatim>\<open>strconv.FormatInt(n, 10)\<close> for a number that is not negative.\<close>

fun FormatInt :: "nat \<Rightarrow> string" where
  "FormatInt n =
     (if n < 10 then [char_of (48 + n)]
      else FormatInt (n div 10) @ [char_of (48 + n mod 10)])"

declare FormatInt.simps [simp del]


section \<open>The inline-binary codec\<close>

text \<open>
  Modelled from the spec: the inline-binary codec (spec 4.3). The handlers decode with
  \<^verbatim>\<open>base64.StdEncoding.DecodeString\<close> of Go's standard library, whose code is not among
  the repository's files, and the server never encodes (the client does). Both directions
  are modelled here as package \<^verbatim>\<open>encoding/base64\<close> defines its standard encoding: the
  alphabet of RFC 4648 with \<^verbatim>\<open>=\<close> padding, a decoder that skips CR and LF and is not
  strict about the unused bits of the last sextet.
\<close>

definition encodeStd :: string where
  "encodeStd = ''ABCDEFGHIJKLMNOPQRSTUVWXYZabcdefghijklmnopqrstuvwxyz0123456789+/''"

text \<open>
  Modelled from the spec: \<^verbatim>\<open>enc.encode[i]\<close> of the library, always read at an index
  masked with \<^verbatim>\<open>0x3F\<close>.
\<close>

definition encode :: "nat \<Rightarrow> char" where
  "encode i = encodeStd ! i"

text \<open>
  Modelled from the spec: \<^verbatim>\<open>enc.decodeMap\<close> of the library. The table is filled
  with \<^verbatim>\<open>0xff\<close> and then holds, at every byte of the alphabet, that byte's index.
\<close>

fun index_from :: "nat \<Rightarrow> string \<Rightarrow> char \<Rightarrow> nat" where
  "index_from i [] c = 255"
| "index_from i (x # xs) c = (if x = c then i else index_from (Suc i) xs c)"

definition decodeMap :: "char \<Rightarrow> nat" where
  "decodeMap c = index_from 0 encodeStd c"

text \<open>
  Modelled from the spec: the encoder, \<^verbatim>\<open>EncodeToString\<close> of the library, which the
  repository does not call. Three bytes become four characters; a last block of two bytes
  or of one byte is padded to four characters.
\<close>

fun EncodeToString :: "string \<Rightarrow> string" where
  "EncodeToString (a # b # c # src) =
     (let val = push_bit 16 (of_char a) OR push_bit 8 (of_char b) OR of_char c :: nat in
      encode (drop_bit 18 val AND 63) # encode (drop_bit 12 val AND 63) #
      encode (drop_bit 6 val AND 63) # encode (val AND 63) # EncodeToString src)"
| "EncodeToString [a, b] =
     (let val = push_bit 16 (of_char a) OR push_bit 8 (of_char b) :: nat in
      [encode (drop_bit 18 val AND 63), encode (drop_bit 12 val AND 63),
       encode (drop_bit 6 val AND 63), CHR ''=''])"
| "EncodeToString [a] =
     (let val = push_bit 16 (of_char a) :: nat in
      [encode (drop_bit 18 val AND 63), encode (drop_bit 12 val AND 63), CHR ''='', CHR ''=''])"
| "EncodeToString [] = []"

text \<open>
  Modelled from the spec: the decoder's error of the library, the offset of the input byte
  it rejects, and its text.
\<close>

datatype CorruptInputError = CorruptInputError nat

fun Error :: "CorruptInputError \<Rightarrow> string" where
  "Error (CorruptInputError n) = ''illegal base64 data at input byte '' @ FormatInt n"

text \<open>
  Modelled from the spec: the loops of the library's \<^verbatim>\<open>decodeQuantum\<close> that skip over
  newlines; \<open>si\<close> is the offset.
\<close>

fun skip_newlines :: "nat \<Rightarrow> string \<Rightarrow> nat \<times> string" where
  "skip_newlines si [] = (si, [])"
| "skip_newlines si (c # src) =
     (if c = CHR 0x0A \<or> c = CHR 0x0D then skip_newlines (Suc si) src else (si, c # src))"

text \<open>
  Modelled from the spec: the end of the library's \<^verbatim>\<open>decodeQuantum\<close>. The sextets
  read (\<open>dlen\<close> of them, the rest zero) are put together and \<open>dlen - 1\<close> bytes come out.
\<close>

definition assemble :: "nat list \<Rightarrow> string" where
  "assemble dbuf =
     (let d = dbuf @ replicate (4 - length dbuf) 0;
          val = push_bit 18 (d ! 0) OR push_bit 12 (d ! 1) OR push_bit 6 (d ! 2) OR d ! 3
      in take (length dbuf - 1)
           [char_of (drop_bit 16 val), char_of (drop_bit 8 val), char_of val])"

text \<open>
  Modelled from the spec: the library's \<^verbatim>\<open>decodeQuantum\<close> after the padding. Newlines
  may follow, anything else is trailing garbage.
\<close>

definition trailing ::
  "nat list \<Rightarrow> nat \<Rightarrow> string \<Rightarrow> CorruptInputError + string \<times> nat \<times> string" where
  "trailing dbuf si src =
     (case skip_newlines si src of
        (si', []) \<Rightarrow> Inr (assemble dbuf, si', [])
      | (si', c # rest) \<Rightarrow> Inl (CorruptInputError si'))"

text \<open>
  Modelled from the spec: the library's \<^verbatim>\<open>decodeQuantum\<close>. \<open>dbuf\<close> holds the sextets
  read so far (\<open>j\<close> is its length), \<open>si\<close> is the offset of the next input byte. The result
  is the bytes decoded, the new offset and the input left.
\<close>

fun decodeQuantum ::
  "nat list \<Rightarrow> nat \<Rightarrow> string \<Rightarrow> CorruptInputError + string \<times> nat \<times> string" where
  "decodeQuantum dbuf si [] =
     (if dbuf = [] then Inr ([], si, []) else Inl (CorruptInputError (si - length dbuf)))"
| "decodeQuantum dbuf si (c # src) =
     (let out = decodeMap c in
      if out \<noteq> 255 then
        (if length dbuf = 3 then Inr (assemble (dbuf @ [out]), Suc si, src)
         else decodeQuantum (dbuf @ [out]) (Suc si) src)
      else if c = CHR 0x0A \<or> c = CHR 0x0D then decodeQuantum dbuf (Suc si) src
      else if c \<noteq> CHR ''='' then Inl (CorruptInputError si)
      else if length dbuf < 2 then Inl (CorruptInputError si)
      else if length dbuf = 2 then
        (case skip_newlines (Suc si) src of
           (si', []) \<Rightarrow> Inl (CorruptInputError si')
         | (si', c' # rest) \<Rightarrow>
             if c' \<noteq> CHR ''='' then Inl (CorruptInputError (si' - 1))
             else trailing dbuf (Suc si') rest)
      else trailing dbuf (Suc si) src)"

lemma skip_newlines_length:
  "skip_newlines si src = (si', rest) \<Longrightarrow> length rest \<le> length src"
  by (induction si src rule: skip_newlines.induct) (auto split: if_splits)

lemma decodeQuantum_length:
  "decodeQuantum dbuf si src = Inr (out, si', rest) \<Longrightarrow> length rest \<le> length src"
proof (induction dbuf si src rule: decodeQuantum.induct)
  case (1 dbuf si)
  then show ?case by (simp split: if_splits)
next
  case (2 dbuf si c src)
  then show ?case
    by (auto simp: Let_def trailing_def split: if_splits prod.splits list.splits
        dest!: skip_newlines_length)
qed

lemma decodeQuantum_shorter:
  "decodeQuantum dbuf si (c # src) = Inr (out, si', rest) \<Longrightarrow> length rest \<le> length src"
  by (auto simp: Let_def trailing_def split: if_splits prod.splits list.splits
        dest!: skip_newlines_length decodeQuantum_length)

text \<open>
  Modelled from the spec: the library's \<^verbatim>\<open>Decode\<close>, quantum after quantum until the
  input is used up (the fast paths of the library for eight and four valid characters at
  a time decode the same quanta). The callers drop the bytes decoded before an error, so
  an error is the whole result.
\<close>

function Decode :: "nat \<Rightarrow> string \<Rightarrow> CorruptInputError + string" where
  "Decode si src =
     (if src = [] then Inr []
      else case decodeQuantum [] si src of
             Inl err \<Rightarrow> Inl err
           | Inr (out, si', rest) \<Rightarrow>
               (case Decode si' rest of
                  Inl err \<Rightarrow> Inl err
                | Inr following \<Rightarrow> Inr (out @ following)))"
  by pat_completeness auto
termination
proof (relation "measure (\<lambda>(si, src). length src)")
  show "wf (measure (\<lambda>(si, src). length src))" by simp
next
  fix si :: nat and src :: string and x2 x y xa ya
  assume "src \<noteq> []" and "decodeQuantum [] si src = Inr x2" and "(x, y) = x2" and "(xa, ya) = y"
  then obtain c cs where "src = c # cs" and "decodeQuantum [] si (c # cs) = Inr (x, xa, ya)"
    by (cases src) auto
  then show "((xa, ya), si, src) \<in> measure (\<lambda>(si, src). length src)"
    using decodeQuantum_shorter by fastforce
qed

declare Decode.simps [simp del]

text \<open>
  Modelled from the spec: the decoder, \<^verbatim>\<open>base64.StdEncoding.DecodeString\<close>, which the
  handlers call.
\<close>

definition DecodeString :: "string \<Rightarrow> CorruptInputError + string" where
  "DecodeString s = Decode 0 s"

section \<open>Requests and body streams\<close>

text \<open>
  An \<^verbatim>\<open>io.ReadCloser\<close> that is read front to back. \<open>pending\<close> are the bytes the stream
  still delivers, \<open>ready\<close> is how many of them a single \<^verbatim>\<open>Read\<close> call can hand over
  at the moment of the first read (what the transport has buffered), and \<open>failure\<close> is the
  error the stream ends with instead of \<^verbatim>\<open>io.EOF\<close>, if any.
\<close>

record reader =
  pending :: string
  ready :: nat
  failure :: "string option"

text \<open>
  One \<^verbatim>\<open>Read(buf)\<close> with \<^verbatim>\<open>len(buf) = n\<close>: at most \<open>n\<close> bytes, at most what is
  ready, at most what is left. The dispatcher discards the error of this call.
\<close>

definition Read :: "reader \<Rightarrow> nat \<Rightarrow> string" where
  "Read rd n = take (min n (ready rd)) (pending rd)"

text \<open>\<^verbatim>\<open>io.ReadAll\<close>: all the bytes, or the error the stream ends with.\<close>

definition ReadAll :: "reader \<Rightarrow> string + string" where
  "ReadAll rd = (case failure rd of None \<Rightarrow> Inr (pending rd) | Some e \<Rightarrow> Inl e)"

text \<open>
  \<^verbatim>\<open>newReadCloser(s)\<close> of main.go wraps \<^verbatim>\<open>strings.NewReader(s)\<close>: the stream holds
  exactly the bytes of \<open>s\<close>, all of them ready, and ends with \<^verbatim>\<open>io.EOF\<close>.
\<close>

definition newReadCloser :: "string \<Rightarrow> reader" where
  "newReadCloser s = \<lparr>pending = s, ready = length s, failure = None\<rparr>"

text \<open>
  The part of \<^verbatim>\<open>*http.Request\<close> the server reads. \<open>SOAPAction\<close> and \<open>Content_Type\<close>
  are the results of \<^verbatim>\<open>r.Header.Get\<close>, the empty string when the header is absent.
\<close>

record request =
  Method :: string
  SOAPAction :: string
  Content_Type :: string
  Body :: reader

section \<open>What the handlers take from outside\<close>

text \<open>
  The handlers call Go's standard library and the operating system for XML decoding,
  media-type parsing, multipart framing, identifiers and files. Their code is not the
  server's; each is a parameter of the model, and every theorem holds for all of them.
  \<^item> \<open>xml_GetUserRequest\<close>, \<open>xml_UploadFileRequest\<close>, \<open>xml_UploadFileMTOMRequest\<close>:
    \<^verbatim>\<open>xml.NewDecoder(r.Body).Decode\<close> into the envelope of the operation; the error text,
    or the fields read (the identifier; the file name and the file data).
  \<^item> \<open>xml_Unmarshal\<close>: \<^verbatim>\<open>xml.Unmarshal\<close> of the control part into the envelope of
    \<^verbatim>\<open>parseMTOMSOAPEnvelope\<close>; the error text, or the file name and the text content of
    the file data element.
  \<^item> \<open>ParseMediaType\<close>: \<^verbatim>\<open>mime.ParseMediaType\<close>; the error text, or the parameters.
  \<^item> \<open>NextParts\<close>: what \<^verbatim>\<open>multipart.NewReader(body, boundary)\<close> yields, call after
    call of \<^verbatim>\<open>NextPart\<close>, up to \<^verbatim>\<open>io.EOF\<close> or the first error.
  \<^item> \<open>NewUUID\<close>: \<^verbatim>\<open>uuid.New().String()\<close>. \<open>MkdirAll\<close>, \<open>WriteFile\<close>: the error text
    of the call, if it fails. \<open>Join\<close>: \<^verbatim>\<open>filepath.Join\<close>.
\<close>

datatype part_result =
    NextPartError string
  | Part string string "string + string"

record platform =
  xml_GetUserRequest :: "reader \<Rightarrow> string + string"
  xml_UploadFileRequest :: "reader \<Rightarrow> string + string \<times> string"
  xml_UploadFileMTOMRequest :: "reader \<Rightarrow> string + string \<times> string"
  xml_Unmarshal :: "string \<Rightarrow> string + string \<times> string"
  ParseMediaType :: "string \<Rightarrow> string + (string \<rightharpoonup> string)"
  NextParts :: "string \<Rightarrow> string \<Rightarrow> part_result list"
  NewUUID :: string
  MkdirAll :: "string \<Rightarrow> string option"
  Join :: "string \<Rightarrow> string \<Rightarrow> string"
  WriteFile :: "string \<Rightarrow> string \<Rightarrow> string option"

text \<open>
  \<open>Part cid ct d\<close> is a part whose headers \<^verbatim>\<open>Content-ID\<close> and \<^verbatim>\<open>Content-Type\<close> read
  \<open>cid\<close> and \<open>ct\<close>, and whose \<^verbatim>\<open>io.ReadAll\<close> gives \<open>d\<close>.
\<close>

section \<open>Responses and the state of the server\<close>

record User =
  ID :: string
  Name :: string
  Email :: string
  CreatedAt :: string

text \<open>The response structs, with their fields in the order of the source.\<close>

datatype payload =
    GetUserResponse string string string string
  | UploadFileResponse string string nat string
  | UploadFileMTOMResponse string string nat string

text \<open>
  What is written to the \<^verbatim>\<open>http.ResponseWriter\<close>: the arguments of \<^verbatim>\<open>http.Error\<close>, of
  \<^verbatim>\<open>sendSOAPError\<close> (fault code, fault string, detail) or of \<^verbatim>\<open>sendSOAPResponse\<close>
  (element name, body). The rendering into the envelope template is not modelled.
\<close>

datatype response =
    http_Error string nat
  | sendSOAPError string string string
  | sendSOAPResponse string payload

text \<open>
  The state that outlives a request: the package variable \<^verbatim>\<open>userDB\<close> and the files
  written under the upload directory.
\<close>

record world =
  userDB :: "string \<rightharpoonup> User"
  uploads :: "string \<rightharpoonup> string"

text \<open>The table \<^verbatim>\<open>userDB\<close> as the source initialises it (the names are UTF-8).\<close>

definition userDB_init :: "string \<rightharpoonup> User" where
  "userDB_init =
     [''1'' \<mapsto> \<lparr>ID = ''1'',
                Name = [CHR 0xED, CHR 0x99, CHR 0x8D, CHR 0xEA, CHR 0xB8, CHR 0xB8,
                        CHR 0xEB, CHR 0x8F, CHR 0x99],
                Email = ''hong@example.com'', CreatedAt = ''2024-01-01''\<rparr>,
      ''2'' \<mapsto> \<lparr>ID = ''2'',
                Name = [CHR 0xEA, CHR 0xB9, CHR 0x80, CHR 0xEC, CHR 0xB2, CHR 0xA0,
                        CHR 0xEC, CHR 0x88, CHR 0x98],
                Email = ''kim@example.com'', CreatedAt = ''2024-01-15''\<rparr>,
      ''3'' \<mapsto> \<lparr>ID = ''3'',
                Name = [CHR 0xEC, CHR 0x9D, CHR 0xB4, CHR 0xEC, CHR 0x98, CHR 0x81,
                        CHR 0xED, CHR 0x9D, CHR 0xAC],
                Email = ''lee@example.com'', CreatedAt = ''2024-02-01''\<rparr>]"

section \<open>The lookup handler\<close>

definition GetUser :: "platform \<Rightarrow> world \<Rightarrow> request \<Rightarrow> response \<times> world" where
  "GetUser P w r =
     (case xml_GetUserRequest P (Body r) of
        Inl err \<Rightarrow> (sendSOAPError ''Client'' ''Invalid XML format'' err, w)
      | Inr userID \<Rightarrow>
          (case userDB w userID of
             None \<Rightarrow>
               (sendSOAPError ''Client'' ''User not found''
                  (''User with ID '' @ userID @ '' not found''), w)
           | Some user \<Rightarrow>
               (sendSOAPResponse ''GetUserResponse''
                  (GetUserResponse (ID user) (Name user) (Email user) (CreatedAt user)), w)))"

section \<open>The inline upload handler (handler/file.go)\<close>

text \<open>\<^verbatim>\<open>strings.ReplaceAll(name, "..", "")\<close>: the matches are taken from the left.\<close>

fun remove_dotdot :: "string \<Rightarrow> string" where
  "remove_dotdot (CHR ''.'' # CHR ''.'' # s) = remove_dotdot s"
| "remove_dotdot (c # s) = c # remove_dotdot s"
| "remove_dotdot [] = []"

definition sanitizeFileName :: "string \<Rightarrow> string" where
  "sanitizeFileName name =
     (let name1 = remove_dotdot name;
          name2 = filter (\<lambda>c. c \<noteq> CHR ''/'') name1;
          name3 = filter (\<lambda>c. c \<noteq> CHR 0x5C) name2;
          name4 = filter (\<lambda>c. c \<noteq> CHR 0x00) name3
      in if length name4 > 255 then take 255 name4 else name4)"

definition UploadFile :: "string \<Rightarrow> platform \<Rightarrow> world \<Rightarrow> request \<Rightarrow> response \<times> world" where
  "UploadFile uploadDir P w r =
     (case xml_UploadFileRequest P (Body r) of
        Inl err \<Rightarrow> (sendSOAPError ''Client'' ''Invalid XML format'' err, w)
      | Inr (fileName, fileData) \<Rightarrow>
          if fileName = [] then
            (sendSOAPError ''Client'' ''Invalid input'' ''File name is required'', w)
          else if fileData = [] then
            (sendSOAPError ''Client'' ''Invalid input'' ''File data is required'', w)
          else
            (case DecodeString fileData of
               Inl err \<Rightarrow>
                 (sendSOAPError ''Client'' ''Invalid file data''
                    (''Failed to decode base64 data: '' @ Error err), w)
             | Inr decodedData \<Rightarrow>
                 (let fileID = NewUUID P in
                  case MkdirAll P uploadDir of
                    Some err \<Rightarrow>
                      (sendSOAPError ''Server'' ''Internal error''
                         (''Failed to create upload directory: '' @ err), w)
                  | None \<Rightarrow>
                      (let safeFileName = sanitizeFileName fileName;
                           uniqueFileName = fileID @ ''_'' @ safeFileName;
                           filePath = Join P uploadDir uniqueFileName
                       in case WriteFile P filePath decodedData of
                            Some err \<Rightarrow>
                              (sendSOAPError ''Server'' ''Internal error''
                                 (''Failed to save file: '' @ err), w)
                          | None \<Rightarrow>
                              (sendSOAPResponse ''UploadFileResponse''
                                 (UploadFileResponse fileID fileName (length decodedData)
                                    (''/uploads/'' @ uniqueFileName)),
                               w\<lparr>uploads := (uploads w)(filePath \<mapsto> decodedData)\<rparr>)))))"

section \<open>The optimized upload handler\<close>

record MultipartPart =
  ContentID :: string
  ContentType :: string
  Data :: string

text \<open>
  The regular expression \<^verbatim>\<open>href=["']cid:([^"']+)["']\<close> of \<^verbatim>\<open>parseMTOMSOAPEnvelope\<close>.
  A match at the start of \<open>s\<close> is \<^verbatim>\<open>href=\<close>, a quote, \<^verbatim>\<open>cid:\<close>, the longest run of
  bytes that are not quotes, which must not be empty, and a quote; the group is the run.
\<close>

definition is_quote :: "char \<Rightarrow> bool" where
  "is_quote c = (c = CHR 0x22 \<or> c = CHR 0x27)"

definition href_cid_here :: "string \<Rightarrow> string option" where
  "href_cid_here s =
     (if HasPrefix s ''href='' then
        (case drop 5 s of
           [] \<Rightarrow> None
         | q # t \<Rightarrow>
             if is_quote q \<and> HasPrefix t ''cid:'' then
               (let run = takeWhile (\<lambda>c. \<not> is_quote c) (drop 4 t);
                    after = dropWhile (\<lambda>c. \<not> is_quote c) (drop 4 t)
                in if run \<noteq> [] \<and> after \<noteq> [] then Some run else None)
             else None)
      else None)"

text \<open>
  \<^verbatim>\<open>re.FindStringSubmatch\<close>: the leftmost match; \<open>Some\<close> of its group, where the
  source reads \<^verbatim>\<open>matches[1]\<close> under \<^verbatim>\<open>len(matches) > 1\<close>.
\<close>

fun FindStringSubmatch :: "string \<Rightarrow> string option" where
  "FindStringSubmatch [] = None"
| "FindStringSubmatch (c # s) =
     (case href_cid_here (c # s) of
        Some run \<Rightarrow> Some run
      | None \<Rightarrow> FindStringSubmatch s)"

definition parseMTOMSOAPEnvelope :: "platform \<Rightarrow> string \<Rightarrow> string + string \<times> string list" where
  "parseMTOMSOAPEnvelope P soapEnvelope =
     (case xml_Unmarshal P soapEnvelope of
        Inl err \<Rightarrow> Inl (''XML parse error: '' @ err)
      | Inr (fileName, fileDataElement) \<Rightarrow>
          Inr (fileName,
               if Contains fileDataElement ''<xop:Include'' \<or> Contains fileDataElement ''Include''
               then (case FindStringSubmatch fileDataElement of
                       Some ref \<Rightarrow> [ref]
                     | None \<Rightarrow> [])
               else []))"

text \<open>The test that makes a part the SOAP envelope part.\<close>

definition is_soap_part :: "string \<Rightarrow> bool" where
  "is_soap_part partContentType =
     (Contains partContentType ''application/xop+xml'' \<or>
      Contains partContentType ''text/xml'' \<or>
      Contains partContentType ''application/soap+xml'')"

text \<open>
  The loop of \<^verbatim>\<open>parseMTOMRequest\<close> over the parts: \<open>parts\<close> and \<open>soapPart\<close> are the
  variables of the source, the list of results ends where \<^verbatim>\<open>NextPart\<close> returns
  \<^verbatim>\<open>io.EOF\<close>.
\<close>

fun read_parts ::
  "part_result list \<Rightarrow> MultipartPart list \<Rightarrow> string \<Rightarrow> string + MultipartPart list \<times> string" where
  "read_parts [] parts soapPart = Inr (parts, soapPart)"
| "read_parts (NextPartError err # rs) parts soapPart =
     Inl (''failed to read multipart part: '' @ err)"
| "read_parts (Part cid ct (Inl err) # rs) parts soapPart =
     Inl (''failed to read part data: '' @ err)"
| "read_parts (Part cid ct (Inr data) # rs) parts soapPart =
     (if is_soap_part ct then read_parts rs parts data
      else read_parts rs
             (parts @ [\<lparr>ContentID = Trim cid ''<>'', ContentType = ct, Data = data\<rparr>])
             soapPart)"

text \<open>
  The start of \<^verbatim>\<open>parseMTOMRequest\<close>, up to the multipart reader: the boundary of the
  content type, the whole body, and what the reader yields for them.
\<close>

definition part_results :: "platform \<Rightarrow> request \<Rightarrow> string + part_result list" where
  "part_results P r =
     (case ParseMediaType P (Content_Type r) of
        Inl err \<Rightarrow> Inl (''failed to parse content-type: '' @ err)
      | Inr params \<Rightarrow>
          (case params ''boundary'' of
             None \<Rightarrow> Inl ''boundary not found in content-type''
           | Some boundary \<Rightarrow>
               (case ReadAll (Body r) of
                  Inl err \<Rightarrow> Inl (''failed to read request body: '' @ err)
                | Inr body \<Rightarrow> Inr (NextParts P body boundary))))"

text \<open>
  The first half of \<^verbatim>\<open>parseMTOMRequest\<close>, up to the end of the loop over the parts:
  the attachment parts in the order read, and the text of the SOAP envelope part.
\<close>

definition parse_multipart :: "platform \<Rightarrow> request \<Rightarrow> string + MultipartPart list \<times> string" where
  "parse_multipart P r =
     (case part_results P r of
        Inl err \<Rightarrow> Inl err
      | Inr results \<Rightarrow> read_parts results [] [])"

text \<open>The inner loop of the resolution: the data of the first part with the identifier.\<close>

fun find_part :: "MultipartPart list \<Rightarrow> string \<Rightarrow> string option" where
  "find_part [] xopRef = None"
| "find_part (part # parts) xopRef =
     (if ContentID part = xopRef then Some (Data part) else find_part parts xopRef)"

text \<open>The outer loop over \<open>xopRefs\<close>, with the variable \<open>fileData\<close>.\<close>

fun resolve :: "string list \<Rightarrow> MultipartPart list \<Rightarrow> string \<Rightarrow> string + string" where
  "resolve [] parts fileData = Inr fileData"
| "resolve (xopRef # xopRefs) parts fileData =
     (case find_part parts xopRef of
        None \<Rightarrow> Inl (''XOP reference not found: '' @ xopRef)
      | Some data \<Rightarrow> resolve xopRefs parts data)"

definition parseMTOMRequest :: "platform \<Rightarrow> request \<Rightarrow> string + string \<times> string" where
  "parseMTOMRequest P r =
     (case parse_multipart P r of
        Inl err \<Rightarrow> Inl err
      | Inr (parts, soapPart) \<Rightarrow>
          (case parseMTOMSOAPEnvelope P soapPart of
             Inl err \<Rightarrow> Inl (''failed to parse SOAP envelope: '' @ err)
           | Inr (fileName, xopRefs) \<Rightarrow>
               (case resolve xopRefs parts [] of
                  Inl err \<Rightarrow> Inl err
                | Inr fileData \<Rightarrow>
                    if fileData = [] then Inl ''no file data found in MTOM request''
                    else Inr (fileName, fileData))))"

definition parseBase64SOAPRequest :: "platform \<Rightarrow> request \<Rightarrow> string + string \<times> string" where
  "parseBase64SOAPRequest P r =
     (case xml_UploadFileMTOMRequest P (Body r) of
        Inl err \<Rightarrow> Inl (''XML decode error: '' @ err)
      | Inr (fileName, fileData) \<Rightarrow>
          (case DecodeString fileData of
             Inl err \<Rightarrow> Inl (''base64 decode error: '' @ Error err)
           | Inr decodedData \<Rightarrow> Inr (fileName, decodedData)))"

text \<open>The two ways \<^verbatim>\<open>UploadFileMTOM\<close> reads its request, each with its fault.\<close>

definition read_upload :: "platform \<Rightarrow> request \<Rightarrow> response + string \<times> string" where
  "read_upload P r =
     (if HasPrefix (Content_Type r) ''multipart/related'' then
        (case parseMTOMRequest P r of
           Inl err \<Rightarrow> Inl (sendSOAPError ''Client'' ''Invalid MTOM request'' err)
         | Inr res \<Rightarrow> Inr res)
      else
        (case parseBase64SOAPRequest P r of
           Inl err \<Rightarrow> Inl (sendSOAPError ''Client'' ''Invalid SOAP request'' err)
         | Inr res \<Rightarrow> Inr res))"

definition UploadFileMTOM :: "string \<Rightarrow> platform \<Rightarrow> world \<Rightarrow> request \<Rightarrow> response \<times> world" where
  "UploadFileMTOM uploadDir P w r =
     (case read_upload P r of
        Inl fault \<Rightarrow> (fault, w)
      | Inr (fileName, fileData) \<Rightarrow>
          if fileName = [] then
            (sendSOAPError ''Client'' ''Invalid input'' ''File name is required'', w)
          else if fileData = [] then
            (sendSOAPError ''Client'' ''Invalid input'' ''File data is required'', w)
          else
            (let fileID = NewUUID P in
             case MkdirAll P uploadDir of
               Some err \<Rightarrow>
                 (sendSOAPError ''Server'' ''Internal error''
                    (''Failed to create upload directory: '' @ err), w)
             | None \<Rightarrow>
                 (let safeFileName = sanitizeFileName fileName;
                      uniqueFileName = fileID @ ''_'' @ safeFileName;
                      filePath = Join P uploadDir uniqueFileName
                  in case WriteFile P filePath fileData of
                       Some err \<Rightarrow>
                         (sendSOAPError ''Server'' ''Internal error''
                            (''Failed to save file: '' @ err), w)
                     | None \<Rightarrow>
                         (sendSOAPResponse ''UploadFileMTOMResponse''
                            (UploadFileMTOMResponse fileID fileName (length fileData)
                               (''/uploads/'' @ uniqueFileName)),
                          w\<lparr>uploads := (uploads w)(filePath \<mapsto> fileData)\<rparr>))))"

section \<open>The operation dispatcher (main.go)\<close>

text \<open>\<^verbatim>\<open>stripQuotes\<close>: one pair of surrounding double quotes is removed.\<close>

definition stripQuotes :: "string \<Rightarrow> string" where
  "stripQuotes s =
     (if length s \<ge> 2 \<and> hd s = CHR 0x22 \<and> last s = CHR 0x22 then butlast (tl s) else s)"

datatype operation = GetUserOp | UploadFileOp | UploadFileMTOMOp

text \<open>
  What the handler registered for \<^verbatim>\<open>/soap\<close> decides: the bare HTTP rejection, the call of
  one of the three operation handlers with the request it passes on, or the fault for an
  operation it cannot determine.
\<close>

datatype routing =
    MethodNotAllowed
  | Invoke operation request
  | UnknownOperation

text \<open>The \<^verbatim>\<open>switch soapAction\<close> of the header path; no case matching falls out of it.\<close>

definition action_operation :: "string \<Rightarrow> operation option" where
  "action_operation a =
     (if a = ''http://example.com/soap/user/GetUser'' then Some GetUserOp
      else if a = ''http://example.com/soap/user/UploadFile'' then Some UploadFileOp
      else if a = ''http://example.com/soap/user/UploadFileMTOM'' then Some UploadFileMTOMOp
      else None)"

text \<open>
  The fallback: one \<^verbatim>\<open>Read\<close> into a buffer of 512 bytes, then the three substring tests
  in the order of the source. The request handed to the chosen handler has its body
  replaced by \<^verbatim>\<open>newReadCloser(bufStr)\<close>.
\<close>

definition sniff :: "request \<Rightarrow> routing" where
  "sniff r =
     (let bufStr = Read (Body r) 512 in
      if Contains bufStr ''GetUserRequest'' then
        Invoke GetUserOp (r\<lparr>Body := newReadCloser bufStr\<rparr>)
      else if Contains bufStr ''UploadFileMTOMRequest'' then
        Invoke UploadFileMTOMOp (r\<lparr>Body := newReadCloser bufStr\<rparr>)
      else if Contains bufStr ''UploadFileRequest'' then
        Invoke UploadFileOp (r\<lparr>Body := newReadCloser bufStr\<rparr>)
      else UnknownOperation)"

text \<open>The handler of \<^verbatim>\<open>/soap\<close>, with the calls of the operation handlers reified.\<close>

definition route :: "request \<Rightarrow> routing" where
  "route r =
     (if Method r \<noteq> ''POST'' then MethodNotAllowed
      else if SOAPAction r \<noteq> [] then
        (case action_operation (stripQuotes (SOAPAction r)) of
           Some op \<Rightarrow> Invoke op r
         | None \<Rightarrow> sniff r)
      else sniff r)"

text \<open>
  The handler of \<^verbatim>\<open>/soap\<close> as a whole: the response written and the state left behind.
\<close>

definition uploadDir :: string where
  "uploadDir = ''./uploads''"

definition soap :: "platform \<Rightarrow> world \<Rightarrow> request \<Rightarrow> response \<times> world" where
  "soap P w r =
     (case route r of
        MethodNotAllowed \<Rightarrow> (http_Error ''Method not allowed. Use POST.'' 405, w)
      | Invoke GetUserOp r' \<Rightarrow> GetUser P w r'
      | Invoke UploadFileOp r' \<Rightarrow> UploadFile uploadDir P w r'
      | Invoke UploadFileMTOMOp r' \<Rightarrow> UploadFileMTOM uploadDir P w r'
      | UnknownOperation \<Rightarrow>
          (sendSOAPError ''Client'' ''Unknown operation''
             ''Could not determine SOAP operation from request'', w))"

text \<open>Requests served one after the other, each with what the outside gives it.\<close>

fun serve :: "world \<Rightarrow> (platform \<times> request) list \<Rightarrow> response list \<times> world" where
  "serve w [] = ([], w)"
| "serve w ((P, r) # rest) =
     (let (resp, w') = soap P w r; (resps, w'') = serve w' rest in (resp # resps, w''))"

section \<open>Reference formats and sample requests\<close>

text \<open>
  The XOP include element as the comment in \<^verbatim>\<open>parseMTOMSOAPEnvelope\<close> gives it, naming
  the content identifier \<open>X\<close>.
\<close>

definition xop_include :: "string \<Rightarrow> string" where
  \<open>xop_include X = ''<xop:Include xmlns:xop="http://www.w3.org/2004/08/xop/include" href="cid:'' @ X @ ''"/>''\<close>

text \<open>
  A multipart message all of whose parts are read without error: each part is given by
  its \<^verbatim>\<open>Content-ID\<close> header, its \<^verbatim>\<open>Content-Type\<close> header and its payload.
\<close>

definition arrived :: "(string \<times> string \<times> string) list \<Rightarrow> part_result list" where
  "arrived raw = map (\<lambda>(cid, ct, data). Part cid ct (Inr data)) raw"

text \<open>The parts of such a message whose content type makes them the SOAP envelope part.\<close>

definition soap_parts :: "(string \<times> string \<times> string) list \<Rightarrow> (string \<times> string \<times> string) list" where
  "soap_parts raw = filter (\<lambda>(cid, ct, data). is_soap_part ct) raw"

text \<open>
  The attachment parts of such a message as \<^verbatim>\<open>parseMTOMRequest\<close> keeps them: the parts
  that are not the SOAP envelope part, in the order of the message, each with its
  identifier stripped of angle brackets.
\<close>

definition attachments :: "(string \<times> string \<times> string) list \<Rightarrow> MultipartPart list" where
  "attachments raw =
     map (\<lambda>(cid, ct, data). \<lparr>ContentID = Trim cid ''<>'', ContentType = ct, Data = data\<rparr>)
       (filter (\<lambda>(cid, ct, data). \<not> is_soap_part ct) raw)"

text \<open>A lookup request of 189 bytes, and one of 788 bytes with a long identifier.\<close>

definition lookup_envelope :: string where
  \<open>lookup_envelope = ''<soap:Envelope xmlns:soap="http://schemas.xmlsoap.org/soap/envelope/"><soap:Body><GetUserRequest xmlns="http://example.com/soap/user"><id>1</id></GetUserRequest></soap:Body></soap:Envelope>''\<close>

definition long_lookup_envelope :: string where
  \<open>long_lookup_envelope = ''<soap:Envelope xmlns:soap="http://schemas.xmlsoap.org/soap/envelope/"><soap:Body><GetUserRequest xmlns="http://example.com/soap/user"><id>'' @ replicate 600 CHR ''1'' @ ''</id></GetUserRequest></soap:Body></soap:Envelope>''\<close>

text \<open>The lookup request for the identifier \<^verbatim>\<open>1\<close>, with its action header.\<close>

definition lookup_request :: request where
  "lookup_request =
     \<lparr>Method = ''POST'', SOAPAction = ''http://example.com/soap/user/GetUser'',
      Content_Type = ''text/xml'', Body = newReadCloser lookup_envelope\<rparr>"

text \<open>
  Sample multipart requests, with the boundary \<^verbatim>\<open>MIMEBoundary\<close>, framed as RFC 2046
  has it, and what the library gives for them: \<open>sample_parts\<close> is the multipart reader
  on the sample messages, \<open>sample_xml\<close> the XML decoder on the sample envelopes and on
  the empty text, for which \<^verbatim>\<open>xml.Unmarshal\<close> returns \<^verbatim>\<open>io.EOF\<close>. The field
  \<^verbatim>\<open>FileData\<close> is a Go \<^verbatim>\<open>string\<close>: \<^verbatim>\<open>xml.Unmarshal\<close> stores in it the character data of
  the element \<^verbatim>\<open>fileData\<close> and skips its child elements. So an include marker written as
  escaped text arrives in the field, unescaped, and an include element that is a child
  of \<^verbatim>\<open>fileData\<close>, the form of the XOP recommendation and of the comment in
  \<^verbatim>\<open>parseMTOMSOAPEnvelope\<close>, leaves the field empty.
\<close>

definition CRLF :: string where
  "CRLF = [CHR 0x0D, CHR 0x0A]"

definition mime_part :: "string \<times> string \<times> string \<Rightarrow> string" where
  "mime_part p =
     (case p of (cid, ct, data) \<Rightarrow>
        ''--MIMEBoundary'' @ CRLF @ ''Content-Type: '' @ ct @ CRLF @
        ''Content-ID: '' @ cid @ CRLF @ CRLF @ data @ CRLF)"

definition mime_message :: "(string \<times> string \<times> string) list \<Rightarrow> string" where
  "mime_message raw = concat (map mime_part raw) @ ''--MIMEBoundary--'' @ CRLF"

definition mtom_content_type :: string where
  \<open>mtom_content_type = ''multipart/related; type="application/xop+xml"; boundary=MIMEBoundary''\<close>

definition upload_envelope :: "string \<Rightarrow> string" where
  \<open>upload_envelope fd = ''<soap:Envelope xmlns:soap="http://schemas.xmlsoap.org/soap/envelope/"><soap:Body><UploadFileMTOMRequest xmlns="http://example.com/soap/user"><fileName>hello.txt</fileName><fileData>'' @ fd @ ''</fileData></UploadFileMTOMRequest></soap:Body></soap:Envelope>''\<close>

definition escaped_include :: "string \<Rightarrow> string" where
  \<open>escaped_include X = ''&lt;xop:Include xmlns:xop="http://www.w3.org/2004/08/xop/include" href="cid:'' @ X @ ''"/&gt;''\<close>

definition xml_part :: "string \<Rightarrow> string \<times> string \<times> string" where
  "xml_part fd = (''<root>'', ''application/xop+xml; charset=UTF-8'', upload_envelope fd)"

definition binary_part :: "string \<Rightarrow> string \<Rightarrow> string \<times> string \<times> string" where
  "binary_part cid data = (cid, ''application/octet-stream'', data)"

definition sample_envelopes :: "(string \<times> string \<times> string) list" where
  "sample_envelopes =
     [(upload_envelope (escaped_include ''file1''), ''hello.txt'', xop_include ''file1''),
      (upload_envelope (escaped_include ''file1'' @ escaped_include ''file2''),
         ''hello.txt'', xop_include ''file1'' @ xop_include ''file2''),
      (upload_envelope ''aGVsbG8='', ''hello.txt'', ''aGVsbG8=''),
      (upload_envelope (xop_include ''file1''), ''hello.txt'', [])]"

definition sample_messages :: "(string \<times> string \<times> string) list list" where
  "sample_messages =
     [[xml_part (escaped_include ''file1''), binary_part ''<file2>'' ''hello''],
      [xml_part (escaped_include ''file1''), binary_part ''<file1>'' ''first'',
         binary_part ''<file1>'' ''second''],
      [xml_part (escaped_include ''file1'' @ escaped_include ''file2''),
         binary_part ''<file1>'' ''first'', binary_part ''<file2>'' ''second''],
      [xml_part ''aGVsbG8=''],
      [binary_part ''<file1>'' ''hello''],
      [xml_part ''aGVsbG8='', xml_part (escaped_include ''file1''),
         binary_part ''<file1>'' ''hello''],
      [xml_part (xop_include ''file1''), binary_part ''<file2>'' ''hello'']]"

definition sample_xml :: "string \<Rightarrow> string + string \<times> string" where
  "sample_xml s =
     (case map_of sample_envelopes s of
        Some found \<Rightarrow> Inr found
      | None \<Rightarrow> if s = [] then Inl ''EOF'' else Inl ''XML syntax error on line 1: unexpected EOF'')"

definition sample_parts :: "string \<Rightarrow> string \<Rightarrow> part_result list" where
  "sample_parts body boundary =
     (case find (\<lambda>raw. mime_message raw = body) sample_messages of
        Some raw \<Rightarrow>
          if boundary = ''MIMEBoundary'' then arrived raw
          else [NextPartError ''multipart: NextPart: EOF'']
      | None \<Rightarrow> [NextPartError ''multipart: NextPart: EOF''])"

definition sample_platform :: platform where
  "sample_platform =
     \<lparr>xml_GetUserRequest =
        (\<lambda>rd. if pending rd = lookup_envelope then Inr ''1''
              else Inl ''XML syntax error on line 1: unexpected EOF''),
      xml_UploadFileRequest = (\<lambda>rd. Inl ''expected element type <Envelope>''),
      xml_UploadFileMTOMRequest = (\<lambda>rd. sample_xml (pending rd)),
      xml_Unmarshal = sample_xml,
      ParseMediaType =
        (\<lambda>ct. if ct = mtom_content_type
              then Inr [''type'' \<mapsto> ''application/xop+xml'', ''boundary'' \<mapsto> ''MIMEBoundary'']
              else Inl ''mime: no media type''),
      NextParts = sample_parts,
      NewUUID = ''123e4567-e89b-12d3-a456-426614174000'',
      MkdirAll = (\<lambda>dir. None),
      Join = (\<lambda>dir name. ''uploads/'' @ name),
      WriteFile = (\<lambda>path data. None)\<rparr>"

definition mtom_request :: "(string \<times> string \<times> string) list \<Rightarrow> request" where
  "mtom_request raw =
     \<lparr>Method = ''POST'', SOAPAction = ''http://example.com/soap/user/UploadFileMTOM'',
      Content_Type = mtom_content_type, Body = newReadCloser (mime_message raw)\<rparr>"

definition world_init :: world where
  "world_init = \<lparr>userDB = userDB_init, uploads = Map.empty\<rparr>"

text \<open>A POST request with the given action header and body.\<close>

definition action_request :: "string \<Rightarrow> string \<Rightarrow> request" where
  "action_request action body =
     \<lparr>Method = ''POST'', SOAPAction = action, Content_Type = ''text/xml'',
      Body = newReadCloser body\<rparr>"

section \<open>The inline-binary codec is a round trip\<close>

text \<open>
  The alphabet has 64 distinct bytes, so the decoding table sends the character of a
  sextet back to the sextet.
\<close>

lemma index_from_nth:
  "distinct xs \<Longrightarrow> i < length xs \<Longrightarrow> index_from k xs (xs ! i) = k + i"
proof (induction xs arbitrary: i k)
  case Nil
  then show ?case by simp
next
  case (Cons a xs)
  show ?case
  proof (cases i)
    case 0
    then show ?thesis by simp
  next
    case (Suc j)
    with Cons.prems have "xs ! j \<noteq> a" "distinct xs" "j < length xs"
      by auto
    with Cons.IH [of j "Suc k"] Suc show ?thesis by simp
  qed
qed

lemma distinct_encodeStd: "distinct encodeStd"
  by (simp add: encodeStd_def)

lemma length_encodeStd: "length encodeStd = 64"
  by (simp add: encodeStd_def)

lemma decodeMap_encode: "i < 64 \<Longrightarrow> decodeMap (encode i) = i"
  using index_from_nth[OF distinct_encodeStd, of i 0]
  by (simp add: decodeMap_def encode_def length_encodeStd)

text \<open>
  The four sextets of a quantum put together again are the low 24 bits they were cut
  from, bit by bit; the bytes of the quantum are read off those bits.
\<close>

lemma and63: "(a::nat) AND 63 = take_bit 6 a"
proof -
  have "(63::nat) = mask 6" by (simp add: mask_eq_exp_minus_1)
  then show ?thesis by (simp add: take_bit_eq_mask)
qed

lemma ranges:
  obtains "(n::nat) < 6" | "6 \<le> n" "n < 12" | "12 \<le> n" "n < 18" | "18 \<le> n" "n < 24" | "24 \<le> n"
  by linarith

lemma recon4: 
  "push_bit 18 (drop_bit 18 val AND 63) OR push_bit 12 (drop_bit 12 val AND 63) OR
     push_bit 6 (drop_bit 6 val AND 63) OR (val AND 63) = take_bit 24 (val::nat)"
  unfolding and63
proof (rule bit_eqI)
  fix n
  show "bit (push_bit 18 (take_bit 6 (drop_bit 18 val)) OR push_bit 12 (take_bit 6 (drop_bit 12 val)) OR
     push_bit 6 (take_bit 6 (drop_bit 6 val)) OR take_bit 6 val) n = bit (take_bit 24 val) n"
    by (cases n rule: ranges) (auto simp: bit_simps)
qed

lemma recon3: 
  "push_bit 18 (drop_bit 18 val AND 63) OR push_bit 12 (drop_bit 12 val AND 63) OR
     push_bit 6 (drop_bit 6 val AND 63) OR 0 = push_bit 6 (drop_bit 6 (take_bit 24 (val::nat)))"
  unfolding and63
proof (rule bit_eqI)
  fix n
  show "bit (push_bit 18 (take_bit 6 (drop_bit 18 val)) OR push_bit 12 (take_bit 6 (drop_bit 12 val)) OR
     push_bit 6 (take_bit 6 (drop_bit 6 val)) OR 0) n = bit (push_bit 6 (drop_bit 6 (take_bit 24 val))) n"
    by (cases n rule: ranges) (auto simp: bit_simps)
qed

lemma recon2: 
  "push_bit 18 (drop_bit 18 val AND 63) OR push_bit 12 (drop_bit 12 val AND 63) OR
     push_bit 6 0 OR 0 = push_bit 12 (drop_bit 12 (take_bit 24 (val::nat)))"
  unfolding and63
proof (rule bit_eqI)
  fix n
  show "bit (push_bit 18 (take_bit 6 (drop_bit 18 val)) OR push_bit 12 (take_bit 6 (drop_bit 12 val)) OR
     push_bit 6 0 OR 0) n = bit (push_bit 12 (drop_bit 12 (take_bit 24 val))) n"
    by (cases n rule: ranges) (auto simp: bit_simps)
qed

lemma bit_of_char: "bit (of_char c :: nat) n \<Longrightarrow> n < 8"
proof -
  assume b: "bit (of_char c :: nat) n"
  have "(of_char c :: nat) = take_bit 8 (of_char c)"
    by (simp add: take_bit_eq_mod)
  with b have "bit (take_bit 8 (of_char c :: nat)) n" by simp
  then show ?thesis by (simp add: bit_take_bit_iff)
qed

lemma byte0: "char_of (drop_bit 16 (take_bit 24 (push_bit 16 (of_char a) OR push_bit 8 (of_char b) OR of_char c :: nat))) = a"
  unfolding char_of_eq_iff
  by (rule bit_eqI) (auto simp: bit_simps dest: bit_of_char)

lemma byte1: "char_of (drop_bit 8 (take_bit 24 (push_bit 16 (of_char a) OR push_bit 8 (of_char b) OR of_char c :: nat))) = b"
  unfolding char_of_eq_iff
  by (rule bit_eqI) (auto simp: bit_simps dest: bit_of_char)

lemma byte2: "char_of ((take_bit 24 (push_bit 16 (of_char a) OR push_bit 8 (of_char b) OR of_char c :: nat))) = c"
  unfolding char_of_eq_iff
  by (rule bit_eqI) (auto simp: bit_simps dest: bit_of_char)

lemma byte0_3: "char_of (drop_bit 16 (push_bit 6 (drop_bit 6 (take_bit 24 (push_bit 16 (of_char a) OR push_bit 8 (of_char b) :: nat))))) = a"
  unfolding char_of_eq_iff
  by (rule bit_eqI) (auto simp: bit_simps dest: bit_of_char)

lemma byte1_3: "char_of (drop_bit 8 (push_bit 6 (drop_bit 6 (take_bit 24 (push_bit 16 (of_char a) OR push_bit 8 (of_char b) :: nat))))) = b"
  unfolding char_of_eq_iff
  by (rule bit_eqI) (auto simp: bit_simps dest: bit_of_char)

lemma byte0_2: "char_of (drop_bit 16 (push_bit 12 (drop_bit 12 (take_bit 24 (push_bit 16 (of_char a) :: nat))))) = a"
  unfolding char_of_eq_iff
  by (rule bit_eqI) (auto simp: bit_simps dest: bit_of_char)

lemma sextet_less: "(a::nat) AND 63 < 64"
  using take_bit_nat_less_exp [of 6 a] by (simp add: and63)

lemma decodeMap_sextet: "decodeMap (encode (a AND 63)) = a AND 63"
  by (rule decodeMap_encode) (rule sextet_less)

lemma decodeMap_sextet_valid: "decodeMap (encode (a AND 63)) \<noteq> 255"
  using sextet_less [of a] by (simp add: decodeMap_sextet)

lemma decodeMap_pad: "decodeMap CHR ''='' = 255"
  by (simp add: decodeMap_def encodeStd_def)

lemma assemble_4:
  "assemble [d0, d1, d2, d3] =
     (let val = push_bit 18 d0 OR push_bit 12 d1 OR push_bit 6 d2 OR d3
      in [char_of (drop_bit 16 val), char_of (drop_bit 8 val), char_of val])"
  by (simp add: assemble_def Let_def)

lemma assemble_3:
  "assemble [d0, d1, d2] =
     (let val = push_bit 18 d0 OR push_bit 12 d1 OR push_bit 6 d2 OR 0
      in [char_of (drop_bit 16 val), char_of (drop_bit 8 val)])"
  by (simp add: assemble_def Let_def)

lemma assemble_2:
  "assemble [d0, d1] =
     (let val = push_bit 18 d0 OR push_bit 12 d1 OR push_bit 6 0 OR 0
      in [char_of (drop_bit 16 val)])"
  by (simp add: assemble_def Let_def)

lemma assemble4:
  "assemble [drop_bit 18 val AND 63, drop_bit 12 val AND 63, drop_bit 6 val AND 63, val AND 63] =
   [char_of (drop_bit 16 (take_bit 24 val)), char_of (drop_bit 8 (take_bit 24 val)), char_of (take_bit 24 val)]"
  by (simp only: assemble_4 Let_def recon4)

lemma assemble3:
  "assemble [drop_bit 18 val AND 63, drop_bit 12 val AND 63, drop_bit 6 val AND 63] =
   [char_of (drop_bit 16 (push_bit 6 (drop_bit 6 (take_bit 24 val)))),
    char_of (drop_bit 8 (push_bit 6 (drop_bit 6 (take_bit 24 val))))]"
  by (simp only: assemble_3 Let_def recon3)

lemma assemble2:
  "assemble [drop_bit 18 val AND 63, drop_bit 12 val AND 63] =
   [char_of (drop_bit 16 (push_bit 12 (drop_bit 12 (take_bit 24 val))))]"
  by (simp only: assemble_2 Let_def recon2)

lemma step_sextet:
  "decodeQuantum dbuf si (encode (a AND 63) # src) =
     (if length dbuf = 3 then Inr (assemble (dbuf @ [a AND 63]), Suc si, src)
      else decodeQuantum (dbuf @ [a AND 63]) (Suc si) src)"
  using sextet_less [of a] by (simp add: Let_def decodeMap_sextet)

lemma step_pad:
  "2 \<le> length dbuf \<Longrightarrow> decodeQuantum dbuf si (CHR ''='' # src) =
     (if length dbuf = 2 then
        (case skip_newlines (Suc si) src of
           (si', []) \<Rightarrow> Inl (CorruptInputError si')
         | (si', c' # rest) \<Rightarrow>
             if c' \<noteq> CHR ''='' then Inl (CorruptInputError (si' - 1))
             else trailing dbuf (Suc si') rest)
      else trailing dbuf (Suc si) src)"
  by (simp add: Let_def decodeMap_pad)

lemma quantum_full:
  "decodeQuantum [] si (encode (drop_bit 18 val AND 63) # encode (drop_bit 12 val AND 63) #
      encode (drop_bit 6 val AND 63) # encode (val AND 63) # src) =
   Inr (assemble [drop_bit 18 val AND 63, drop_bit 12 val AND 63, drop_bit 6 val AND 63, val AND 63],
        si + 4, src)"
  by (simp add: step_sextet del: decodeQuantum.simps)

lemma quantum_pad1:
  "decodeQuantum [] si [encode (drop_bit 18 val AND 63), encode (drop_bit 12 val AND 63),
      encode (drop_bit 6 val AND 63), CHR ''=''] =
   Inr (assemble [drop_bit 18 val AND 63, drop_bit 12 val AND 63, drop_bit 6 val AND 63], si + 4, [])"
  by (simp add: step_sextet step_pad trailing_def del: decodeQuantum.simps)

lemma quantum_pad2:
  "decodeQuantum [] si [encode (drop_bit 18 val AND 63), encode (drop_bit 12 val AND 63),
      CHR ''='', CHR ''=''] =
   Inr (assemble [drop_bit 18 val AND 63, drop_bit 12 val AND 63], si + 4, [])"
  by (simp add: step_sextet step_pad trailing_def del: decodeQuantum.simps)

lemma Decode_Nil: "Decode si [] = Inr []"
  by (subst Decode.simps) simp

lemma Decode_full:
  "Decode si (encode (drop_bit 18 val AND 63) # encode (drop_bit 12 val AND 63) #
      encode (drop_bit 6 val AND 63) # encode (val AND 63) # src) =
   (case Decode (si + 4) src of
      Inl err \<Rightarrow> Inl err
    | Inr following \<Rightarrow>
        Inr ([char_of (drop_bit 16 (take_bit 24 val)), char_of (drop_bit 8 (take_bit 24 val)),
              char_of (take_bit 24 val)] @ following))"
  by (subst Decode.simps) (simp add: quantum_full assemble4 del: decodeQuantum.simps)

lemma Decode_pad1:
  "Decode si [encode (drop_bit 18 val AND 63), encode (drop_bit 12 val AND 63),
      encode (drop_bit 6 val AND 63), CHR ''=''] =
   Inr [char_of (drop_bit 16 (push_bit 6 (drop_bit 6 (take_bit 24 val)))),
        char_of (drop_bit 8 (push_bit 6 (drop_bit 6 (take_bit 24 val))))]"
  by (subst Decode.simps) (simp add: quantum_pad1 assemble3 Decode_Nil del: decodeQuantum.simps)

lemma Decode_pad2:
  "Decode si [encode (drop_bit 18 val AND 63), encode (drop_bit 12 val AND 63),
      CHR ''='', CHR ''=''] =
   Inr [char_of (drop_bit 16 (push_bit 12 (drop_bit 12 (take_bit 24 val))))]"
  by (subst Decode.simps) (simp add: quantum_pad2 assemble2 Decode_Nil del: decodeQuantum.simps)

lemma Decode_Encode: "Decode si (EncodeToString b) = Inr b"
proof (induction b arbitrary: si rule: EncodeToString.induct)
  case (1 a b c src)
  have "Decode si (EncodeToString (a # b # c # src)) =
        (case Decode (si + 4) (EncodeToString src) of
           Inl err \<Rightarrow> Inl err
         | Inr following \<Rightarrow> Inr ([a, b, c] @ following))"
    by (simp only: EncodeToString.simps Let_def Decode_full byte0 byte1 byte2)
  then show ?case
    by (simp only: "1.IH" sum.case append.simps)
next
  case (2 a b)
  show ?case
    by (simp only: EncodeToString.simps Let_def Decode_pad1 byte0_3 byte1_3)
next
  case (3 a)
  show ?case
    by (simp only: EncodeToString.simps Let_def Decode_pad2 byte0_2)
next
  case 4
  show ?case by (simp only: EncodeToString.simps Decode_Nil)
qed

text \<open>
  C2. Decoding the inline text encoding of a byte sequence gives back that byte sequence,
  for every byte sequence: the empty one, those whose length is no multiple of three,
  and those that are not UTF-8 (a byte is any of the 256 values of \<^typ>\<open>char\<close>).
\<close>

theorem inline_codec_round_trip: "DecodeString (EncodeToString b) = Inr b"
  by (simp add: DecodeString_def Decode_Encode)


section \<open>Routing by the action header\<close>

lemma action_operation_known:
  "action_operation ''http://example.com/soap/user/GetUser'' = Some GetUserOp \<and>
   action_operation ''http://example.com/soap/user/UploadFile'' = Some UploadFileOp \<and>
   action_operation ''http://example.com/soap/user/UploadFileMTOM'' = Some UploadFileMTOMOp \<and>
   ((action_operation a = None) =
      (a \<noteq> ''http://example.com/soap/user/GetUser'' \<and>
       a \<noteq> ''http://example.com/soap/user/UploadFile'' \<and>
       a \<noteq> ''http://example.com/soap/user/UploadFileMTOM''))"
  by (simp add: action_operation_def)

lemma action_operation_nonempty: "action_operation a = Some op \<Longrightarrow> a \<noteq> []"
  by (auto simp: action_operation_def split: if_splits)

lemma stripQuotes_nonempty: "stripQuotes s \<noteq> [] \<Longrightarrow> s \<noteq> []"
  by (auto simp: stripQuotes_def)

text \<open>
  C3. A POST request whose action header, with one pair of surrounding quotes stripped,
  is \<^verbatim>\<open>http://example.com/soap/user/GetUser\<close> is handed, unchanged, to \<^verbatim>\<open>GetUser\<close>; one
  whose stripped header is \<^verbatim>\<open>http://example.com/soap/user/UploadFile\<close> to
  \<^verbatim>\<open>UploadFile\<close>; one whose stripped header is
  \<^verbatim>\<open>http://example.com/soap/user/UploadFileMTOM\<close> to \<^verbatim>\<open>UploadFileMTOM\<close>; and the
  response is that handler's. The body plays no part: the same request with any other
  body stream goes to the same handler, so a conflicting operation marker in the body
  does not change the operation.
\<close>

theorem header_routes_without_body:
  assumes "Method r = ''POST''"
  shows "(stripQuotes (SOAPAction r) = ''http://example.com/soap/user/GetUser'' \<longrightarrow>
            route r = Invoke GetUserOp r \<and>
            (\<forall>b. route (r\<lparr>Body := b\<rparr>) = Invoke GetUserOp (r\<lparr>Body := b\<rparr>)) \<and>
            soap P w r = GetUser P w r) \<and>
         (stripQuotes (SOAPAction r) = ''http://example.com/soap/user/UploadFile'' \<longrightarrow>
            route r = Invoke UploadFileOp r \<and>
            (\<forall>b. route (r\<lparr>Body := b\<rparr>) = Invoke UploadFileOp (r\<lparr>Body := b\<rparr>)) \<and>
            soap P w r = UploadFile uploadDir P w r) \<and>
         (stripQuotes (SOAPAction r) = ''http://example.com/soap/user/UploadFileMTOM'' \<longrightarrow>
            route r = Invoke UploadFileMTOMOp r \<and>
            (\<forall>b. route (r\<lparr>Body := b\<rparr>) = Invoke UploadFileMTOMOp (r\<lparr>Body := b\<rparr>)) \<and>
            soap P w r = UploadFileMTOM uploadDir P w r)"
proof -
  have ne: "SOAPAction r \<noteq> []" if "stripQuotes (SOAPAction r) = a" "a \<noteq> []" for a
    using that stripQuotes_nonempty [of "SOAPAction r"] by simp
  have g: "route r = Invoke GetUserOp r \<and>
           (\<forall>b. route (r\<lparr>Body := b\<rparr>) = Invoke GetUserOp (r\<lparr>Body := b\<rparr>)) \<and>
           soap P w r = GetUser P w r"
    if h: "stripQuotes (SOAPAction r) = ''http://example.com/soap/user/GetUser''"
  proof -
    from ne [OF h] have "SOAPAction r \<noteq> []" by simp
    with assms h show ?thesis by (simp add: route_def soap_def action_operation_def)
  qed
  have u: "route r = Invoke UploadFileOp r \<and>
           (\<forall>b. route (r\<lparr>Body := b\<rparr>) = Invoke UploadFileOp (r\<lparr>Body := b\<rparr>)) \<and>
           soap P w r = UploadFile uploadDir P w r"
    if h: "stripQuotes (SOAPAction r) = ''http://example.com/soap/user/UploadFile''"
  proof -
    from ne [OF h] have "SOAPAction r \<noteq> []" by simp
    with assms h show ?thesis by (simp add: route_def soap_def action_operation_def)
  qed
  have m: "route r = Invoke UploadFileMTOMOp r \<and>
           (\<forall>b. route (r\<lparr>Body := b\<rparr>) = Invoke UploadFileMTOMOp (r\<lparr>Body := b\<rparr>)) \<and>
           soap P w r = UploadFileMTOM uploadDir P w r"
    if h: "stripQuotes (SOAPAction r) = ''http://example.com/soap/user/UploadFileMTOM''"
  proof -
    from ne [OF h] have "SOAPAction r \<noteq> []" by simp
    with assms h show ?thesis by (simp add: route_def soap_def action_operation_def)
  qed
  from g u m show ?thesis by blast
qed

text \<open>
  Each of the three identifiers with a body that carries the marker of another
  operation: the lookup identifier, in quotes, with the body of an inline upload; the
  two upload identifiers with the body of a lookup. The header decides each time.
\<close>

theorem header_routes_without_body_witness:
  "Contains ''<UploadFileRequest><fileName>a</fileName></UploadFileRequest>'' ''UploadFileRequest'' \<and>
   route (action_request (CHR 0x22 # ''http://example.com/soap/user/GetUser'' @ [CHR 0x22])
            ''<UploadFileRequest><fileName>a</fileName></UploadFileRequest>'') =
     Invoke GetUserOp
       (action_request (CHR 0x22 # ''http://example.com/soap/user/GetUser'' @ [CHR 0x22])
          ''<UploadFileRequest><fileName>a</fileName></UploadFileRequest>'') \<and>
   soap sample_platform world_init
     (action_request (CHR 0x22 # ''http://example.com/soap/user/GetUser'' @ [CHR 0x22])
        ''<UploadFileRequest><fileName>a</fileName></UploadFileRequest>'') =
     GetUser sample_platform world_init
       (action_request (CHR 0x22 # ''http://example.com/soap/user/GetUser'' @ [CHR 0x22])
          ''<UploadFileRequest><fileName>a</fileName></UploadFileRequest>'') \<and>
   Contains lookup_envelope ''GetUserRequest'' \<and>
   route (action_request ''http://example.com/soap/user/UploadFile'' lookup_envelope) =
     Invoke UploadFileOp
       (action_request ''http://example.com/soap/user/UploadFile'' lookup_envelope) \<and>
   soap sample_platform world_init
     (action_request ''http://example.com/soap/user/UploadFile'' lookup_envelope) =
     UploadFile uploadDir sample_platform world_init
       (action_request ''http://example.com/soap/user/UploadFile'' lookup_envelope) \<and>
   route (action_request ''http://example.com/soap/user/UploadFileMTOM'' lookup_envelope) =
     Invoke UploadFileMTOMOp
       (action_request ''http://example.com/soap/user/UploadFileMTOM'' lookup_envelope) \<and>
   soap sample_platform world_init
     (action_request ''http://example.com/soap/user/UploadFileMTOM'' lookup_envelope) =
     UploadFileMTOM uploadDir sample_platform world_init
       (action_request ''http://example.com/soap/user/UploadFileMTOM'' lookup_envelope)"
proof -
  let ?g = "action_request (CHR 0x22 # ''http://example.com/soap/user/GetUser'' @ [CHR 0x22])
              ''<UploadFileRequest><fileName>a</fileName></UploadFileRequest>''"
  let ?u = "action_request ''http://example.com/soap/user/UploadFile'' lookup_envelope"
  let ?m = "action_request ''http://example.com/soap/user/UploadFileMTOM'' lookup_envelope"
  have post: "Method ?g = ''POST''" "Method ?u = ''POST''" "Method ?m = ''POST''"
    by (simp_all add: action_request_def)
  have hdr:
    "stripQuotes (SOAPAction ?g) = ''http://example.com/soap/user/GetUser''"
    "stripQuotes (SOAPAction ?u) = ''http://example.com/soap/user/UploadFile''"
    "stripQuotes (SOAPAction ?m) = ''http://example.com/soap/user/UploadFileMTOM''"
    by (simp_all add: action_request_def stripQuotes_def)
  have body:
    "Contains ''<UploadFileRequest><fileName>a</fileName></UploadFileRequest>'' ''UploadFileRequest''"
    "Contains lookup_envelope ''GetUserRequest''"
    by (simp_all add: lookup_envelope_def)
  from header_routes_without_body [OF post(1), of sample_platform world_init]
       header_routes_without_body [OF post(2), of sample_platform world_init]
       header_routes_without_body [OF post(3), of sample_platform world_init]
       hdr body
  show ?thesis by simp
qed

section \<open>Routing by the body\<close>

lemma sniff_body:
  "sniff r = Invoke op r' \<Longrightarrow>
   r' = r\<lparr>Body := newReadCloser (take (min 512 (ready (Body r))) (pending (Body r)))\<rparr>"
  by (auto simp: sniff_def Let_def Read_def split: if_splits)

lemma sniff_body_length:
  "sniff r = Invoke op r' \<Longrightarrow> length (pending (Body r')) \<le> 512"
  by (auto simp: sniff_def Let_def Read_def newReadCloser_def split: if_splits)

lemma sniff_keeps_short_body:
  "sniff r = Invoke op r' \<Longrightarrow> length (pending (Body r)) \<le> 512 \<Longrightarrow>
   length (pending (Body r)) \<le> ready (Body r) \<Longrightarrow> pending (Body r') = pending (Body r)"
  by (auto simp: sniff_def Let_def Read_def newReadCloser_def split: if_splits)

text \<open>
  C8, as the code has it. A POST request whose action header, after quote stripping,
  matches none of the three known action identifiers, whether the header is empty or
  not, is routed by content sniffing exactly as a request without the header. The
  fault \<^verbatim>\<open>Unknown operation\<close> with code \<^verbatim>\<open>Client\<close> is emitted exactly when the
  peeked prefix holds none of the three markers.
\<close>

theorem unmatched_header_falls_back:
  assumes "Method r = ''POST''"
      and "action_operation (stripQuotes (SOAPAction r)) = None"
  shows "route r = sniff r \<and>
         ((route r = UnknownOperation) =
            (\<not> Contains (Read (Body r) 512) ''GetUserRequest'' \<and>
             \<not> Contains (Read (Body r) 512) ''UploadFileMTOMRequest'' \<and>
             \<not> Contains (Read (Body r) 512) ''UploadFileRequest'')) \<and>
         (route r = UnknownOperation \<longrightarrow>
            soap P w r = (sendSOAPError ''Client'' ''Unknown operation''
                            ''Could not determine SOAP operation from request'', w))"
proof -
  from assms have r: "route r = sniff r"
    by (simp add: route_def)
  have "(sniff r = UnknownOperation) =
            (\<not> Contains (Read (Body r) 512) ''GetUserRequest'' \<and>
             \<not> Contains (Read (Body r) 512) ''UploadFileMTOMRequest'' \<and>
             \<not> Contains (Read (Body r) 512) ''UploadFileRequest'')"
    by (simp add: sniff_def Let_def)
  with r show ?thesis
    by (auto simp: soap_def)
qed

text \<open>
  C8 as the spec states it fails: the header \<^verbatim>\<open>urn:unknown\<close> is not empty and matches no
  known identifier, and the request is routed to the lookup handler by the marker in its
  body.
\<close>

theorem unmatched_header_sniffs_counterexample:
  "stripQuotes ''urn:unknown'' \<noteq> [] \<and>
   action_operation (stripQuotes ''urn:unknown'') = None \<and>
   route \<lparr>Method = ''POST'', SOAPAction = ''urn:unknown'', Content_Type = ''text/xml'',
          Body = newReadCloser lookup_envelope\<rparr>
   = Invoke GetUserOp
       \<lparr>Method = ''POST'', SOAPAction = ''urn:unknown'', Content_Type = ''text/xml'',
        Body = newReadCloser lookup_envelope\<rparr>"
  by (simp add: route_def sniff_def stripQuotes_def action_operation_def Read_def newReadCloser_def
      lookup_envelope_def)

text \<open>
  A header that matches nothing, a body without a marker: the fault.
\<close>

theorem unmatched_header_falls_back_witness:
  "route \<lparr>Method = ''POST'', SOAPAction = ''urn:unknown'', Content_Type = ''text/xml'',
          Body = newReadCloser ''<ping/>''\<rparr> = UnknownOperation \<and>
   soap sample_platform world_init
     \<lparr>Method = ''POST'', SOAPAction = ''urn:unknown'', Content_Type = ''text/xml'',
      Body = newReadCloser ''<ping/>''\<rparr> =
     (sendSOAPError ''Client'' ''Unknown operation''
        ''Could not determine SOAP operation from request'', world_init)"
  using unmatched_header_falls_back
    [of "\<lparr>Method = ''POST'', SOAPAction = ''urn:unknown'', Content_Type = ''text/xml'',
          Body = newReadCloser ''<ping/>''\<rparr>" sample_platform world_init]
  by (simp add: route_def sniff_def stripQuotes_def action_operation_def Read_def newReadCloser_def)

text \<open>
  C1. The spec has the handler chosen by sniffing read the body as it was sent, the
  prefix consumed by the peek followed by the rest of the stream. The code hands on the
  prefix alone. Here the request has no action header and a body of 788 bytes with the
  lookup marker in its first 512 bytes, all of it ready to be read: the lookup handler is
  called with a body that holds the first 512 bytes and nothing else, and reading it to
  the end gives those 512 bytes, not the original body.
\<close>

theorem sniffed_body_cut:
  "route \<lparr>Method = ''POST'', SOAPAction = [], Content_Type = ''text/xml'',
          Body = \<lparr>pending = long_lookup_envelope, ready = length long_lookup_envelope,
                  failure = None\<rparr>\<rparr>
   = Invoke GetUserOp
       \<lparr>Method = ''POST'', SOAPAction = [], Content_Type = ''text/xml'',
        Body = newReadCloser (take 512 long_lookup_envelope)\<rparr>
   \<and> length long_lookup_envelope = 788
   \<and> ReadAll (newReadCloser (take 512 long_lookup_envelope)) = Inr (take 512 long_lookup_envelope)
   \<and> length (take 512 long_lookup_envelope) = 512
   \<and> take 512 long_lookup_envelope \<noteq> long_lookup_envelope"
proof -
  have len: "length long_lookup_envelope = 788"
    by (simp add: long_lookup_envelope_def)
  then have cut: "length (take 512 long_lookup_envelope) = 512"
    by simp
  have ne: "take 512 long_lookup_envelope \<noteq> long_lookup_envelope"
  proof
    assume "take 512 long_lookup_envelope = long_lookup_envelope"
    then have "length (take 512 long_lookup_envelope) = length long_lookup_envelope"
      by simp
    with len cut show False by simp
  qed
  have "Contains (take 512 long_lookup_envelope) ''GetUserRequest''"
    by (simp add: long_lookup_envelope_def)
  then have "route \<lparr>Method = ''POST'', SOAPAction = [], Content_Type = ''text/xml'',
          Body = \<lparr>pending = long_lookup_envelope, ready = length long_lookup_envelope,
                  failure = None\<rparr>\<rparr>
   = Invoke GetUserOp
       \<lparr>Method = ''POST'', SOAPAction = [], Content_Type = ''text/xml'',
        Body = newReadCloser (take 512 long_lookup_envelope)\<rparr>"
    using len by (simp add: route_def sniff_def Read_def)
  moreover have "ReadAll (newReadCloser (take 512 long_lookup_envelope)) = Inr (take 512 long_lookup_envelope)"
    by (simp add: ReadAll_def newReadCloser_def)
  ultimately show ?thesis using len cut ne by simp
qed

section \<open>Parsing the multipart message\<close>

lemma parseMTOMSOAPEnvelope_refs:
  "parseMTOMSOAPEnvelope P s = Inr (fn, refs) \<Longrightarrow> length refs \<le> 1"
  by (auto simp: parseMTOMSOAPEnvelope_def split: sum.splits option.splits if_splits)

lemma find_part_None: "(find_part parts X = None) = (X \<notin> ContentID ` set parts)"
  by (induction parts) auto

lemma find_part_Some:
  "find_part parts X = Some d \<Longrightarrow>
   \<exists>pre p post. parts = pre @ p # post \<and> ContentID p = X \<and> X \<notin> ContentID ` set pre \<and> d = Data p"
proof (induction parts)
  case Nil
  then show ?case by simp
next
  case (Cons a parts)
  show ?case
  proof (cases "ContentID a = X")
    case True
    with Cons.prems have "a # parts = [] @ a # parts \<and> ContentID a = X \<and> X \<notin> ContentID ` set [] \<and> d = Data a"
      by simp
    then show ?thesis by blast
  next
    case False
    with Cons obtain pre p post where
      "parts = pre @ p # post" "ContentID p = X" "X \<notin> ContentID ` set pre" "d = Data p"
      by auto
    with False have "a # parts = (a # pre) @ p # post \<and> ContentID p = X \<and> X \<notin> ContentID ` set (a # pre) \<and> d = Data p"
      by auto
    then show ?thesis by blast
  qed
qed

lemma takeWhile_run:
  "\<forall>c\<in>set X. \<not> is_quote c \<Longrightarrow> is_quote q \<Longrightarrow>
   takeWhile (\<lambda>c. \<not> is_quote c) (X @ q # rest) = X \<and>
   dropWhile (\<lambda>c. \<not> is_quote c) (X @ q # rest) = q # rest"
  by (induction X) auto

lemma href_cid_here_marker:
  assumes "X \<noteq> []" "\<forall>c\<in>set X. \<not> is_quote c"
  shows "href_cid_here (''href='' @ CHR 0x22 # ''cid:'' @ X @ CHR 0x22 # rest) = Some X"
  using assms takeWhile_run [of X "CHR 0x22" rest]
  by (simp add: href_cid_here_def is_quote_def)

lemma FindStringSubmatch_marker:
  assumes "X \<noteq> []" "\<forall>c\<in>set X. \<not> is_quote c"
  shows "FindStringSubmatch (xop_include X @ rest) = Some X"
proof -
  have "FindStringSubmatch (xop_include X @ rest) =
        FindStringSubmatch (''href='' @ CHR 0x22 # ''cid:'' @ X @ CHR 0x22 # ''/>'' @ rest)"
    by (simp add: xop_include_def href_cid_here_def)
  also have "\<dots> = Some X"
    using href_cid_here_marker [OF assms, of "''/>'' @ rest"] by simp
  finally show ?thesis .
qed

lemma HasPrefix_append: "HasPrefix (p @ s) p"
  by (induction p) auto

lemma Contains_HasPrefix: "HasPrefix s p \<Longrightarrow> Contains s p"
  by (cases s) (auto elim: HasPrefix.elims)

lemma Contains_append: "Contains (a @ b @ c) b"
proof (induction a)
  case Nil
  then show ?case using HasPrefix_append [of b c] by (simp add: Contains_HasPrefix)
next
  case (Cons x a)
  then show ?case by simp
qed

lemma Contains_marker: "Contains (xop_include X @ rest) ''Include''"
proof -
  have "xop_include X @ rest = ''<xop:'' @ ''Include'' @ (drop 12 (xop_include X) @ rest)"
    by (simp add: xop_include_def)
  then show ?thesis using Contains_append [of "''<xop:''" "''Include''"] by metis
qed

lemma read_parts_arrived_none:
  "soap_parts raw = [] \<Longrightarrow> \<exists>ps. read_parts (arrived raw) parts soapPart = Inr (ps, soapPart)"
  by (induction raw arbitrary: parts) (auto simp: arrived_def soap_parts_def split: if_splits)

lemma read_parts_arrived_last:
  "is_soap_part ct \<Longrightarrow> soap_parts after = [] \<Longrightarrow>
   \<exists>ps. read_parts (arrived (before @ (cid, ct, data) # after)) parts soapPart = Inr (ps, data)"
proof (induction before arbitrary: parts soapPart)
  case Nil
  then show ?case
    using read_parts_arrived_none [of after parts data] by (simp add: arrived_def)
next
  case (Cons a before)
  obtain cid' ct' d' where a: "a = (cid', ct', d')" by (cases a)
  show ?case
  proof (cases "is_soap_part ct'")
    case True
    with Cons.IH [OF Cons.prems, of parts d'] a show ?thesis by (simp add: arrived_def)
  next
    case False
    with Cons.IH [OF Cons.prems, of "parts @ [\<lparr>ContentID = Trim cid' ''<>'', ContentType = ct', Data = d'\<rparr>]" soapPart] a
    show ?thesis by (simp add: arrived_def)
  qed
qed


lemma parse_multipart_arrived:
  "part_results P r = Inr (arrived raw) \<Longrightarrow>
   parse_multipart P r = read_parts (arrived raw) [] []"
  by (simp add: parse_multipart_def)

lemma parseMTOMRequest_Inr:
  assumes "parseMTOMRequest P r = Inr (fileName, fileData)"
  shows "\<exists>parts soapPart X. parse_multipart P r = Inr (parts, soapPart) \<and>
           parseMTOMSOAPEnvelope P soapPart = Inr (fileName, [X]) \<and>
           find_part parts X = Some fileData \<and> fileData \<noteq> []"
proof -
  from assms obtain parts soapPart where pm: "parse_multipart P r = Inr (parts, soapPart)"
    by (auto simp: parseMTOMRequest_def split: sum.splits)
  with assms obtain fn refs where env: "parseMTOMSOAPEnvelope P soapPart = Inr (fn, refs)"
    by (auto simp: parseMTOMRequest_def split: sum.splits)
  with pm assms have res: "resolve refs parts [] = Inr fileData" and ne: "fileData \<noteq> []" and fn: "fn = fileName"
    by (auto simp: parseMTOMRequest_def split: sum.splits if_splits)
  from env have "length refs \<le> 1" by (rule parseMTOMSOAPEnvelope_refs)
  then consider "refs = []" | X where "refs = [X]"
    by (cases refs) auto
  then show ?thesis
  proof cases
    case 1
    with res ne show ?thesis by simp
  next
    case (2 X)
    with res have "find_part parts X = Some fileData"
      by (simp split: option.splits)
    with pm env fn 2 ne show ?thesis by blast
  qed
qed

lemma read_parts_Inr:
  "read_parts rs acc s = Inr (ps, sp) \<Longrightarrow> \<exists>raw. rs = arrived raw \<and> ps = acc @ attachments raw"
proof (induction rs arbitrary: acc s)
  case Nil
  then show ?case by (simp add: arrived_def attachments_def)
next
  case (Cons a rs)
  show ?case
  proof (cases a)
    case (NextPartError err)
    with Cons.prems show ?thesis by simp
  next
    case (Part cid ct d)
    show ?thesis
    proof (cases d)
      case (Inl err)
      with Part Cons.prems show ?thesis by simp
    next
      case (Inr data)
      show ?thesis
      proof (cases "is_soap_part ct")
        case True
        with Cons.prems Part Inr have "read_parts rs acc data = Inr (ps, sp)" by simp
        from Cons.IH [OF this] obtain raw where "rs = arrived raw" "ps = acc @ attachments raw"
          by blast
        with True Part Inr
        have "a # rs = arrived ((cid, ct, data) # raw) \<and> ps = acc @ attachments ((cid, ct, data) # raw)"
          by (simp add: arrived_def attachments_def)
        then show ?thesis by blast
      next
        case False
        with Cons.prems Part Inr
        have "read_parts rs (acc @ [\<lparr>ContentID = Trim cid ''<>'', ContentType = ct, Data = data\<rparr>]) s =
              Inr (ps, sp)" by simp
        from Cons.IH [OF this] obtain raw where "rs = arrived raw"
          "ps = (acc @ [\<lparr>ContentID = Trim cid ''<>'', ContentType = ct, Data = data\<rparr>]) @ attachments raw"
          by blast
        with False Part Inr
        have "a # rs = arrived ((cid, ct, data) # raw) \<and> ps = acc @ attachments ((cid, ct, data) # raw)"
          by (simp add: arrived_def attachments_def)
        then show ?thesis by blast
      qed
    qed
  qed
qed

lemma parse_multipart_Inr:
  "parse_multipart P r = Inr (parts, soapPart) \<Longrightarrow>
   \<exists>raw. part_results P r = Inr (arrived raw) \<and> parts = attachments raw"
  using read_parts_Inr [of _ "[]" "[]" parts soapPart]
  by (auto simp: parse_multipart_def split: sum.splits)

lemma arrived_inject: "arrived raw = arrived raw' \<Longrightarrow> raw = raw'"
proof -
  have "inj (\<lambda>(cid, ct, data). Part cid ct (Inr data :: string + string))"
    by (auto simp: inj_on_def)
  then show "arrived raw = arrived raw' \<Longrightarrow> raw = raw'"
    unfolding arrived_def by (simp add: inj_map_eq_map)
qed

section \<open>The sample requests, evaluated\<close>

lemmas sample_defs =
  sample_platform_def sample_parts_def sample_xml_def sample_messages_def sample_envelopes_def
  mtom_request_def mtom_content_type_def mime_message_def mime_part_def CRLF_def xml_part_def
  binary_part_def upload_envelope_def escaped_include_def xop_include_def
  newReadCloser_def ReadAll_def

lemma sample_multipart: "HasPrefix (Content_Type (mtom_request m)) ''multipart/related''"
  by (simp add: mtom_request_def mtom_content_type_def)

lemma sample_envelope_file1:
  "xml_Unmarshal sample_platform (upload_envelope (escaped_include ''file1'')) =
     Inr (''hello.txt'', xop_include ''file1'')"
  by (simp add: sample_defs)


lemma sample_envelope_inline:
  "xml_Unmarshal sample_platform (upload_envelope ''aGVsbG8='') = Inr (''hello.txt'', ''aGVsbG8='')"
  by (simp add: sample_defs)

lemma sample_envelope_empty: "xml_Unmarshal sample_platform [] = Inl ''EOF''"
  by (simp add: sample_defs)

lemma sample_envelope_element:
  "xml_Unmarshal sample_platform (upload_envelope (xop_include ''file1'')) = Inr (''hello.txt'', [])"
  by (simp add: sample_defs)

lemma sample_refs_file1:
  "parseMTOMSOAPEnvelope sample_platform (upload_envelope (escaped_include ''file1'')) =
     Inr (''hello.txt'', [''file1''])"
  using FindStringSubmatch_marker [of "''file1''" "[]"] Contains_marker [of "''file1''" "[]"]
  by (simp add: parseMTOMSOAPEnvelope_def sample_envelope_file1 is_quote_def)

lemma is_soap_part_xop: "is_soap_part ''application/xop+xml; charset=UTF-8''"
  by (simp add: is_soap_part_def)

lemma is_soap_part_binary: "\<not> is_soap_part ''application/octet-stream''"
  by (simp add: is_soap_part_def)

lemma Trim_file1: "Trim ''<file1>'' ''<>'' = ''file1''"
  by (simp add: Trim_def)

lemma Trim_file2: "Trim ''<file2>'' ''<>'' = ''file2''"
  by (simp add: Trim_def)

lemmas sample_eval =
  arrived_def xml_part_def binary_part_def is_soap_part_xop is_soap_part_binary
  Trim_file1 Trim_file2

section \<open>The control part\<close>

text \<open>
  C7, as the code has it. The code has no check for a missing control part: for a
  multipart message, all of whose parts arrive, with no part of the XML/XOP family, the
  control text stays empty and is handed to the XML parser; the parser's error
  (\<^verbatim>\<open>EOF\<close> for the empty text) comes back as the Client fault
  \<^verbatim>\<open>Invalid MTOM request\<close> with the detail
  \<^verbatim>\<open>failed to parse SOAP envelope: XML parse error: EOF\<close>. When the message has
  several such parts, the control text is the payload of the last of them.
\<close>

theorem control_part_selection:
  "(HasPrefix (Content_Type r) ''multipart/related'' \<and> part_results P r = Inr (arrived raw) \<and>
      soap_parts raw = [] \<and> xml_Unmarshal P [] = Inl err \<longrightarrow>
      UploadFileMTOM uploadDir P w r =
        (sendSOAPError ''Client'' ''Invalid MTOM request''
           (''failed to parse SOAP envelope: XML parse error: '' @ err), w)) \<and>
   (part_results P r' = Inr (arrived (before @ (cid, ct, data) # after)) \<and>
      is_soap_part ct \<and> soap_parts after = [] \<longrightarrow>
      (\<exists>parts. parse_multipart P r' = Inr (parts, data)))"
proof -
  have a: "UploadFileMTOM uploadDir P w r =
              (sendSOAPError ''Client'' ''Invalid MTOM request''
                 (''failed to parse SOAP envelope: XML parse error: '' @ err), w)"
    if "HasPrefix (Content_Type r) ''multipart/related''" "part_results P r = Inr (arrived raw)"
       "soap_parts raw = []" "xml_Unmarshal P [] = Inl err"
  proof -
    from read_parts_arrived_none [OF that(3), of "[]" "[]"] parse_multipart_arrived [OF that(2)]
    obtain ps where "parse_multipart P r = Inr (ps, [])" by auto
    with that(4) have "parseMTOMRequest P r =
        Inl (''failed to parse SOAP envelope: XML parse error: '' @ err)"
      by (simp add: parseMTOMRequest_def parseMTOMSOAPEnvelope_def)
    with that(1) show ?thesis by (simp add: UploadFileMTOM_def read_upload_def)
  qed
  have b: "\<exists>parts. parse_multipart P r' = Inr (parts, data)"
    if "part_results P r' = Inr (arrived (before @ (cid, ct, data) # after))"
       "is_soap_part ct" "soap_parts after = []"
    using read_parts_arrived_last [OF that(2,3), of before cid data "[]" "[]"]
      parse_multipart_arrived [OF that(1)] by simp
  from a b show ?thesis by blast
qed

text \<open>
  A message with one binary part and no control part, and a message with two control
  parts before its binary part: the second control part is the one kept.
\<close>

theorem control_part_selection_witness:
  "UploadFileMTOM uploadDir sample_platform world_init
     (mtom_request [binary_part ''<file1>'' ''hello'']) =
     (sendSOAPError ''Client'' ''Invalid MTOM request''
        ''failed to parse SOAP envelope: XML parse error: EOF'', world_init) \<and>
   (\<exists>parts. parse_multipart sample_platform
      (mtom_request [xml_part ''aGVsbG8='', xml_part (escaped_include ''file1''),
         binary_part ''<file1>'' ''hello'']) =
      Inr (parts, upload_envelope (escaped_include ''file1'')))"
proof -
  have a: "part_results sample_platform (mtom_request [binary_part ''<file1>'' ''hello'']) =
           Inr (arrived [binary_part ''<file1>'' ''hello''])"
    by (simp add: part_results_def sample_defs)
  have b: "part_results sample_platform
             (mtom_request [xml_part ''aGVsbG8='', xml_part (escaped_include ''file1''),
                binary_part ''<file1>'' ''hello'']) =
           Inr (arrived ([xml_part ''aGVsbG8=''] @
                  (''<root>'', ''application/xop+xml; charset=UTF-8'',
                   upload_envelope (escaped_include ''file1'')) #
                  [binary_part ''<file1>'' ''hello'']))"
    by (simp add: part_results_def sample_defs)
  have c: "soap_parts [binary_part ''<file1>'' ''hello''] = []"
    by (simp add: soap_parts_def binary_part_def is_soap_part_binary)
  from control_part_selection
    [of "mtom_request [binary_part ''<file1>'' ''hello'']" sample_platform
        "[binary_part ''<file1>'' ''hello'']" "''EOF''" world_init
        "mtom_request [xml_part ''aGVsbG8='', xml_part (escaped_include ''file1''),
           binary_part ''<file1>'' ''hello'']"
        "[xml_part ''aGVsbG8='']" "''<root>''" "''application/xop+xml; charset=UTF-8''"
        "upload_envelope (escaped_include ''file1'')" "[binary_part ''<file1>'' ''hello'']"]
    a b c sample_multipart sample_envelope_empty is_soap_part_xop
  show ?thesis by simp
qed

text \<open>
  C7 as the spec states it fails: for a message without a control part the error is the
  XML parser's, not \<^verbatim>\<open>missing control part\<close>.
\<close>

theorem missing_control_part_counterexample:
  "soap_parts [binary_part ''<file1>'' ''hello''] = [] \<and>
   UploadFileMTOM uploadDir sample_platform world_init
     (mtom_request [binary_part ''<file1>'' ''hello'']) =
     (sendSOAPError ''Client'' ''Invalid MTOM request''
        ''failed to parse SOAP envelope: XML parse error: EOF'', world_init) \<and>
   ''failed to parse SOAP envelope: XML parse error: EOF'' \<noteq> ''missing control part''"
proof -
  have "parse_multipart sample_platform (mtom_request [binary_part ''<file1>'' ''hello'']) =
        Inr ([\<lparr>ContentID = ''file1'', ContentType = ''application/octet-stream'', Data = ''hello''\<rparr>], [])"
    by (simp add: parse_multipart_def part_results_def sample_defs arrived_def is_soap_part_def Trim_def)
  then have "parseMTOMRequest sample_platform (mtom_request [binary_part ''<file1>'' ''hello'']) =
     Inl ''failed to parse SOAP envelope: XML parse error: EOF''"
    by (simp add: parseMTOMRequest_def parseMTOMSOAPEnvelope_def sample_envelope_empty)
  then show ?thesis
    by (simp add: UploadFileMTOM_def read_upload_def sample_multipart soap_parts_def
        binary_part_def is_soap_part_binary)
qed

section \<open>Resolution of external references\<close>

text \<open>
  When the text of the file data field holds the include marker that names \<open>X\<close>, as it
  does when the marker was written as escaped text, and no attachment part of the
  message has the identifier \<open>X\<close> (after its angle brackets are stripped; the comparison
  is equality of the bytes), the resolution fails with
  \<^verbatim>\<open>XOP reference not found: X\<close>, which the handler reports as a fault with code
  \<^verbatim>\<open>Client\<close>.
\<close>

lemma unresolved_reference_fault:
  assumes "HasPrefix (Content_Type r) ''multipart/related''"
      and "part_results P r = Inr (arrived raw)"
      and "parse_multipart P r = Inr (parts, soapPart)"
      and "parseMTOMSOAPEnvelope P soapPart = Inr (fileName, [X])"
      and "X \<notin> ContentID ` set (attachments raw)"
  shows "parseMTOMRequest P r = Inl (''XOP reference not found: '' @ X) \<and>
         UploadFileMTOM uploadDir P w r =
           (sendSOAPError ''Client'' ''Invalid MTOM request'' (''XOP reference not found: '' @ X), w)"
proof -
  from parse_multipart_Inr [OF assms(3)] assms(2) have "parts = attachments raw"
    by (auto dest: arrived_inject)
  with assms(5) have "find_part parts X = None" by (simp add: find_part_None)
  with assms(3,4) have "parseMTOMRequest P r = Inl (''XOP reference not found: '' @ X)"
    by (simp add: parseMTOMRequest_def)
  with assms(1) show ?thesis
    by (simp add: UploadFileMTOM_def read_upload_def)
qed

text \<open>
  The text of the file data field is the escaped marker naming \<^verbatim>\<open>file1\<close>; the only
  attachment is \<^verbatim>\<open><file2>\<close>.
\<close>

lemma unresolved_reference_fault_escaped:
  "parseMTOMRequest sample_platform
     (mtom_request [xml_part (escaped_include ''file1''), binary_part ''<file2>'' ''hello'']) =
     Inl ''XOP reference not found: file1'' \<and>
   UploadFileMTOM uploadDir sample_platform world_init
     (mtom_request [xml_part (escaped_include ''file1''), binary_part ''<file2>'' ''hello'']) =
     (sendSOAPError ''Client'' ''Invalid MTOM request'' ''XOP reference not found: file1'',
      world_init)"
proof -
  let ?m = "[xml_part (escaped_include ''file1''), binary_part ''<file2>'' ''hello'']"
  have pr: "part_results sample_platform (mtom_request ?m) = Inr (arrived ?m)"
    by (simp add: part_results_def sample_defs)
  have pm: "parse_multipart sample_platform (mtom_request ?m) =
        Inr ([\<lparr>ContentID = ''file2'', ContentType = ''application/octet-stream'', Data = ''hello''\<rparr>],
             upload_envelope (escaped_include ''file1''))"
    unfolding parse_multipart_def pr by (simp add: sample_eval)
  have att: "''file1'' \<notin> ContentID ` set (attachments ?m)"
    by (simp add: attachments_def sample_eval)
  from unresolved_reference_fault [OF sample_multipart pr pm sample_refs_file1 att, of world_init]
  show ?thesis by simp
qed

text \<open>
  C5, at a message whose control part references \<^verbatim>\<open>file1\<close> by the include element
  itself, a child of \<^verbatim>\<open>fileData\<close>, and whose only attachment part is \<^verbatim>\<open><file2>\<close>. The
  control part is the one kept, the attachment read has the identifier \<^verbatim>\<open>file2\<close>, and
  the decoder leaves the field \<^verbatim>\<open>FileData\<close> empty, so no identifier reaches the
  resolution: the handler answers with the fault of code \<^verbatim>\<open>Client\<close> whose detail is
  \<^verbatim>\<open>no file data found in MTOM request\<close>, and not
  \<^verbatim>\<open>XOP reference not found: file1\<close>.
\<close>

theorem include_element_reference_lost:
  "parse_multipart sample_platform
     (mtom_request [xml_part (xop_include ''file1''), binary_part ''<file2>'' ''hello'']) =
     Inr ([\<lparr>ContentID = ''file2'', ContentType = ''application/octet-stream'', Data = ''hello''\<rparr>],
          upload_envelope (xop_include ''file1'')) \<and>
   ''file1'' \<notin> ContentID ` set
     (attachments [xml_part (xop_include ''file1''), binary_part ''<file2>'' ''hello'']) \<and>
   parseMTOMSOAPEnvelope sample_platform (upload_envelope (xop_include ''file1'')) =
     Inr (''hello.txt'', []) \<and>
   parseMTOMRequest sample_platform
     (mtom_request [xml_part (xop_include ''file1''), binary_part ''<file2>'' ''hello'']) =
     Inl ''no file data found in MTOM request'' \<and>
   UploadFileMTOM uploadDir sample_platform world_init
     (mtom_request [xml_part (xop_include ''file1''), binary_part ''<file2>'' ''hello'']) =
     (sendSOAPError ''Client'' ''Invalid MTOM request'' ''no file data found in MTOM request'',
      world_init) \<and>
   ''no file data found in MTOM request'' \<noteq> ''XOP reference not found: file1''"
proof -
  let ?m = "[xml_part (xop_include ''file1''), binary_part ''<file2>'' ''hello'']"
  have pr: "part_results sample_platform (mtom_request ?m) = Inr (arrived ?m)"
    by (simp add: part_results_def sample_defs)
  have pm: "parse_multipart sample_platform (mtom_request ?m) =
        Inr ([\<lparr>ContentID = ''file2'', ContentType = ''application/octet-stream'', Data = ''hello''\<rparr>],
             upload_envelope (xop_include ''file1''))"
    unfolding parse_multipart_def pr by (simp add: sample_eval)
  have att: "''file1'' \<notin> ContentID ` set (attachments ?m)"
    by (simp add: attachments_def sample_eval)
  have env: "parseMTOMSOAPEnvelope sample_platform (upload_envelope (xop_include ''file1'')) =
        Inr (''hello.txt'', [])"
    by (simp add: parseMTOMSOAPEnvelope_def sample_envelope_element)
  from pm env have res: "parseMTOMRequest sample_platform (mtom_request ?m) =
        Inl ''no file data found in MTOM request''"
    by (simp add: parseMTOMRequest_def)
  then have "UploadFileMTOM uploadDir sample_platform world_init (mtom_request ?m) =
     (sendSOAPError ''Client'' ''Invalid MTOM request'' ''no file data found in MTOM request'',
      world_init)"
    by (simp add: UploadFileMTOM_def read_upload_def sample_multipart)
  with pm att env res show ?thesis by simp
qed

text \<open>
  C6. When the resolution succeeds, the bytes returned are the payload of an attachment
  part with the referenced identifier, as the part carried it, and no attachment part
  before it in the message has that identifier.
\<close>

theorem resolved_payload_verbatim_first:
  assumes "parseMTOMRequest P r = Inr (fileName, fileData)"
  shows "\<exists>raw soapPart X pre p post.
           part_results P r = Inr (arrived raw) \<and>
           parse_multipart P r = Inr (attachments raw, soapPart) \<and>
           parseMTOMSOAPEnvelope P soapPart = Inr (fileName, [X]) \<and>
           attachments raw = pre @ p # post \<and> ContentID p = X \<and> X \<notin> ContentID ` set pre \<and>
           fileData = Data p"
proof -
  from parseMTOMRequest_Inr [OF assms] obtain parts soapPart X where
    pm: "parse_multipart P r = Inr (parts, soapPart)" and
    env: "parseMTOMSOAPEnvelope P soapPart = Inr (fileName, [X])" and
    f: "find_part parts X = Some fileData"
    by blast
  from parse_multipart_Inr [OF pm] obtain raw where
    raw: "part_results P r = Inr (arrived raw)" "parts = attachments raw"
    by blast
  from find_part_Some [OF f] obtain pre p post where
    "parts = pre @ p # post" "ContentID p = X" "X \<notin> ContentID ` set pre" "fileData = Data p"
    by blast
  with pm env raw show ?thesis by blast
qed

text \<open>
  Two attachments carry the identifier \<^verbatim>\<open>file1\<close>; the payload of the first is returned.
\<close>

theorem resolved_payload_verbatim_first_witness:
  "parseMTOMRequest sample_platform
     (mtom_request [xml_part (escaped_include ''file1''), binary_part ''<file1>'' ''first'',
        binary_part ''<file1>'' ''second'']) = Inr (''hello.txt'', ''first'') \<and>
   attachments [xml_part (escaped_include ''file1''), binary_part ''<file1>'' ''first'',
        binary_part ''<file1>'' ''second''] =
     [\<lparr>ContentID = ''file1'', ContentType = ''application/octet-stream'', Data = ''first''\<rparr>,
      \<lparr>ContentID = ''file1'', ContentType = ''application/octet-stream'', Data = ''second''\<rparr>] \<and>
   (\<exists>raw soapPart X pre p post.
      part_results sample_platform
        (mtom_request [xml_part (escaped_include ''file1''), binary_part ''<file1>'' ''first'',
           binary_part ''<file1>'' ''second'']) = Inr (arrived raw) \<and>
      parse_multipart sample_platform
        (mtom_request [xml_part (escaped_include ''file1''), binary_part ''<file1>'' ''first'',
           binary_part ''<file1>'' ''second'']) = Inr (attachments raw, soapPart) \<and>
      parseMTOMSOAPEnvelope sample_platform soapPart = Inr (''hello.txt'', [X]) \<and>
      attachments raw = pre @ p # post \<and> ContentID p = X \<and> X \<notin> ContentID ` set pre \<and>
      ''first'' = Data p)"
proof -
  let ?m = "[xml_part (escaped_include ''file1''), binary_part ''<file1>'' ''first'',
        binary_part ''<file1>'' ''second'']"
  have pr: "part_results sample_platform (mtom_request ?m) = Inr (arrived ?m)"
    by (simp add: part_results_def sample_defs)
  have "parse_multipart sample_platform (mtom_request ?m) =
        Inr ([\<lparr>ContentID = ''file1'', ContentType = ''application/octet-stream'', Data = ''first''\<rparr>,
              \<lparr>ContentID = ''file1'', ContentType = ''application/octet-stream'', Data = ''second''\<rparr>],
             upload_envelope (escaped_include ''file1''))"
    unfolding parse_multipart_def pr by (simp add: sample_eval)
  then have res: "parseMTOMRequest sample_platform (mtom_request ?m) = Inr (''hello.txt'', ''first'')"
    by (simp add: parseMTOMRequest_def sample_refs_file1)
  have att: "attachments ?m =
     [\<lparr>ContentID = ''file1'', ContentType = ''application/octet-stream'', Data = ''first''\<rparr>,
      \<lparr>ContentID = ''file1'', ContentType = ''application/octet-stream'', Data = ''second''\<rparr>]"
    by (simp add: attachments_def sample_eval)
  from resolved_payload_verbatim_first [OF res] res att show ?thesis by simp
qed

text \<open>
  C4, as the code has it. In the multipart path, when the text of the file data field
  holds no include marker, no identifier is extracted, the text is not decoded, and the
  request fails with the Client fault \<^verbatim>\<open>Invalid MTOM request\<close> and the detail
  \<^verbatim>\<open>no file data found in MTOM request\<close>. The text of the field goes to the inline
  codec only for a request whose content type is not \<^verbatim>\<open>multipart/related\<close>.
\<close>

theorem no_marker_no_file_data:
  assumes "HasPrefix (Content_Type r) ''multipart/related''"
      and "parse_multipart P r = Inr (parts, soapPart)"
      and "xml_Unmarshal P soapPart = Inr (fileName, fileDataElement)"
      and "\<not> Contains fileDataElement ''<xop:Include''"
      and "\<not> Contains fileDataElement ''Include''"
  shows "parseMTOMSOAPEnvelope P soapPart = Inr (fileName, []) \<and>
         UploadFileMTOM uploadDir P w r =
           (sendSOAPError ''Client'' ''Invalid MTOM request''
              ''no file data found in MTOM request'', w) \<and>
         (\<not> HasPrefix (Content_Type r') ''multipart/related'' \<and>
            xml_UploadFileMTOMRequest P (Body r') = Inr (fileName', inline) \<longrightarrow>
            read_upload P r' =
              (case DecodeString inline of
                 Inl err \<Rightarrow>
                   Inl (sendSOAPError ''Client'' ''Invalid SOAP request''
                          (''base64 decode error: '' @ Error err))
               | Inr decodedData \<Rightarrow> Inr (fileName', decodedData)))"
proof -
  from assms(3-5) have env: "parseMTOMSOAPEnvelope P soapPart = Inr (fileName, [])"
    by (simp add: parseMTOMSOAPEnvelope_def)
  with assms(2) have "parseMTOMRequest P r = Inl ''no file data found in MTOM request''"
    by (simp add: parseMTOMRequest_def)
  with assms(1) have fault: "UploadFileMTOM uploadDir P w r =
           (sendSOAPError ''Client'' ''Invalid MTOM request''
              ''no file data found in MTOM request'', w)"
    by (simp add: UploadFileMTOM_def read_upload_def)
  have "read_upload P r' =
              (case DecodeString inline of
                 Inl err \<Rightarrow>
                   Inl (sendSOAPError ''Client'' ''Invalid SOAP request''
                          (''base64 decode error: '' @ Error err))
               | Inr decodedData \<Rightarrow> Inr (fileName', decodedData))"
    if "\<not> HasPrefix (Content_Type r') ''multipart/related''"
       "xml_UploadFileMTOMRequest P (Body r') = Inr (fileName', inline)"
    using that by (simp add: read_upload_def parseBase64SOAPRequest_def split: sum.splits)
  with env fault show ?thesis by blast
qed

text \<open>
  The file data field holds \<^verbatim>\<open>aGVsbG8=\<close>, the inline encoding of \<^verbatim>\<open>hello\<close>: an error
  in a multipart request, the bytes \<^verbatim>\<open>hello\<close> in a request that is the envelope alone.
\<close>

theorem no_marker_no_file_data_witness:
  "\<not> Contains ''aGVsbG8='' ''<xop:Include'' \<and> \<not> Contains ''aGVsbG8='' ''Include'' \<and>
   parseMTOMSOAPEnvelope sample_platform (upload_envelope ''aGVsbG8='') = Inr (''hello.txt'', []) \<and>
   UploadFileMTOM uploadDir sample_platform world_init (mtom_request [xml_part ''aGVsbG8='']) =
     (sendSOAPError ''Client'' ''Invalid MTOM request'' ''no file data found in MTOM request'',
      world_init) \<and>
   read_upload sample_platform
     \<lparr>Method = ''POST'', SOAPAction = ''http://example.com/soap/user/UploadFileMTOM'',
      Content_Type = ''text/xml'', Body = newReadCloser (upload_envelope ''aGVsbG8='')\<rparr> =
     Inr (''hello.txt'', ''hello'')"
proof -
  let ?r' = "\<lparr>Method = ''POST'', SOAPAction = ''http://example.com/soap/user/UploadFileMTOM'',
      Content_Type = ''text/xml'', Body = newReadCloser (upload_envelope ''aGVsbG8='')\<rparr>"
  have pm: "parse_multipart sample_platform (mtom_request [xml_part ''aGVsbG8='']) =
        Inr ([], upload_envelope ''aGVsbG8='')"
    by (simp add: parse_multipart_def part_results_def sample_defs arrived_def is_soap_part_def
        Trim_def)
  have "EncodeToString ''hello'' = ''aGVsbG8=''"
    by (simp add: encode_def encodeStd_def)
  with Decode_Encode [of 0 "''hello''"] have dec: "DecodeString ''aGVsbG8='' = Inr ''hello''"
    by (simp only: DecodeString_def)
  have plain: "\<not> HasPrefix (Content_Type ?r') ''multipart/related''"
    by simp
  have xml: "xml_UploadFileMTOMRequest sample_platform (Body ?r') = Inr (''hello.txt'', ''aGVsbG8='')"
    using sample_envelope_inline by (simp add: sample_platform_def newReadCloser_def)
  from no_marker_no_file_data
    [OF sample_multipart pm sample_envelope_inline, of world_init ?r' "''hello.txt''" "''aGVsbG8=''"]
    plain xml dec
  show ?thesis by simp
qed

text \<open>
  C4 as the spec states it fails: the text \<^verbatim>\<open>aGVsbG8=\<close> holds no include marker and
  the inline codec decodes it to \<^verbatim>\<open>hello\<close>, yet the multipart path answers with an
  error.
\<close>

theorem inline_text_in_multipart_counterexample:
  "\<not> Contains ''aGVsbG8='' ''Include'' \<and>
   DecodeString ''aGVsbG8='' = Inr ''hello'' \<and>
   xml_Unmarshal sample_platform (upload_envelope ''aGVsbG8='') = Inr (''hello.txt'', ''aGVsbG8='') \<and>
   parseMTOMRequest sample_platform (mtom_request [xml_part ''aGVsbG8='']) =
     Inl ''no file data found in MTOM request'' \<and>
   UploadFileMTOM uploadDir sample_platform world_init (mtom_request [xml_part ''aGVsbG8='']) =
     (sendSOAPError ''Client'' ''Invalid MTOM request'' ''no file data found in MTOM request'',
      world_init)"
proof -
  have "EncodeToString ''hello'' = ''aGVsbG8=''"
    by (simp add: encode_def encodeStd_def)
  with Decode_Encode [of 0 "''hello''"] have dec: "DecodeString ''aGVsbG8='' = Inr ''hello''"
    by (simp only: DecodeString_def)
  have pm: "parse_multipart sample_platform (mtom_request [xml_part ''aGVsbG8='']) =
        Inr ([], upload_envelope ''aGVsbG8='')"
    by (simp add: parse_multipart_def part_results_def sample_defs arrived_def is_soap_part_def Trim_def)
  then have "parseMTOMRequest sample_platform (mtom_request [xml_part ''aGVsbG8='']) =
     Inl ''no file data found in MTOM request''"
    by (simp add: parseMTOMRequest_def parseMTOMSOAPEnvelope_def sample_envelope_inline)
  with dec show ?thesis
    by (simp add: UploadFileMTOM_def read_upload_def sample_multipart sample_envelope_inline)
qed



section \<open>The lookup table\<close>

lemma GetUser_userDB: "userDB (snd (GetUser P w r)) = userDB w"
  by (simp add: GetUser_def split: sum.splits option.splits)

lemma UploadFile_userDB: "userDB (snd (UploadFile dir P w r)) = userDB w"
  by (simp add: UploadFile_def Let_def split: sum.splits option.splits prod.splits)

lemma UploadFileMTOM_userDB: "userDB (snd (UploadFileMTOM dir P w r)) = userDB w"
  by (simp add: UploadFileMTOM_def Let_def split: sum.splits option.splits prod.splits)

lemma soap_userDB: "userDB (snd (soap P w r)) = userDB w"
  by (simp add: soap_def GetUser_userDB UploadFile_userDB UploadFileMTOM_userDB
      split: routing.splits operation.splits)

lemma serve_Cons_world:
  "snd (serve w ((P, r) # rest)) = snd (serve (snd (soap P w r)) rest)"
  by (simp add: case_prod_beta)

lemma serve_userDB: "userDB (snd (serve w history)) = userDB w"
proof (induction history arbitrary: w)
  case Nil
  show ?case by simp
next
  case (Cons a history)
  obtain P r where a: "a = (P, r)" by (cases a)
  have "userDB (snd (serve (snd (soap P w r)) history)) = userDB (snd (soap P w r))"
    by (rule Cons.IH)
  then show ?case
    unfolding a serve_Cons_world by (simp add: soap_userDB)
qed

lemma GetUser_reads_userDB:
  "userDB w' = userDB w \<Longrightarrow> fst (GetUser P w' r) = fst (GetUser P w r)"
  by (simp add: GetUser_def split: sum.splits option.splits)

text \<open>
  C9. No request changes the lookup table: whatever the request and whatever path its
  handler takes, the table after the request is the table before it, and so it is after
  any sequence of requests. The lookup handler therefore answers a request after any
  history as it answers it before: for an identifier in the table with its record, for
  any other with the fault \<^verbatim>\<open>User not found\<close> of code \<^verbatim>\<open>Client\<close>.
\<close>

theorem userDB_never_changes:
  "userDB (snd (soap P w r)) = userDB w \<and>
   userDB (snd (serve w history)) = userDB w \<and>
   fst (GetUser P' (snd (serve w history)) r') = fst (GetUser P' w r') \<and>
   (xml_GetUserRequest P' (Body r') = Inr userID \<longrightarrow>
      fst (GetUser P' (snd (serve w history)) r') =
        (case userDB w userID of
           None \<Rightarrow>
             sendSOAPError ''Client'' ''User not found''
               (''User with ID '' @ userID @ '' not found'')
         | Some user \<Rightarrow>
             sendSOAPResponse ''GetUserResponse''
               (GetUserResponse (ID user) (Name user) (Email user) (CreatedAt user))))"
proof -
  have same: "fst (GetUser P' (snd (serve w history)) r') = fst (GetUser P' w r')"
    using GetUser_reads_userDB [of "snd (serve w history)" w P' r'] serve_userDB [of w history]
    by simp
  have "fst (GetUser P' w r') =
        (case userDB w userID of
           None \<Rightarrow>
             sendSOAPError ''Client'' ''User not found''
               (''User with ID '' @ userID @ '' not found'')
         | Some user \<Rightarrow>
             sendSOAPResponse ''GetUserResponse''
               (GetUserResponse (ID user) (Name user) (Email user) (CreatedAt user)))"
    if "xml_GetUserRequest P' (Body r') = Inr userID"
    using that by (simp add: GetUser_def split: option.splits)
  with same show ?thesis
    by (simp add: soap_userDB serve_userDB)
qed

lemma sample_upload:
  "soap sample_platform world_init
     (mtom_request [xml_part (escaped_include ''file1''), binary_part ''<file1>'' ''first'',
        binary_part ''<file1>'' ''second'']) =
   (sendSOAPResponse ''UploadFileMTOMResponse''
      (UploadFileMTOMResponse ''123e4567-e89b-12d3-a456-426614174000'' ''hello.txt'' 5
         ''/uploads/123e4567-e89b-12d3-a456-426614174000_hello.txt''),
    world_init\<lparr>uploads := [''uploads/123e4567-e89b-12d3-a456-426614174000_hello.txt'' \<mapsto> ''first'']\<rparr>)"
proof -
  let ?m = "[xml_part (escaped_include ''file1''), binary_part ''<file1>'' ''first'',
        binary_part ''<file1>'' ''second'']"
  have pr: "part_results sample_platform (mtom_request ?m) = Inr (arrived ?m)"
    by (simp add: part_results_def sample_defs)
  have "parse_multipart sample_platform (mtom_request ?m) =
        Inr ([\<lparr>ContentID = ''file1'', ContentType = ''application/octet-stream'', Data = ''first''\<rparr>,
              \<lparr>ContentID = ''file1'', ContentType = ''application/octet-stream'', Data = ''second''\<rparr>],
             upload_envelope (escaped_include ''file1''))"
    unfolding parse_multipart_def pr by (simp add: sample_eval)
  then have res: "parseMTOMRequest sample_platform (mtom_request ?m) = Inr (''hello.txt'', ''first'')"
    by (simp add: parseMTOMRequest_def sample_refs_file1)
  have rt: "route (mtom_request ?m) = Invoke UploadFileMTOMOp (mtom_request ?m)"
    by (simp add: route_def mtom_request_def stripQuotes_def action_operation_def)
  have "UploadFileMTOM uploadDir sample_platform world_init (mtom_request ?m) =
   (sendSOAPResponse ''UploadFileMTOMResponse''
      (UploadFileMTOMResponse ''123e4567-e89b-12d3-a456-426614174000'' ''hello.txt'' 5
         ''/uploads/123e4567-e89b-12d3-a456-426614174000_hello.txt''),
    world_init\<lparr>uploads := [''uploads/123e4567-e89b-12d3-a456-426614174000_hello.txt'' \<mapsto> ''first'']\<rparr>)"
  proof -
    have ru: "read_upload sample_platform (mtom_request ?m) = Inr (''hello.txt'', ''first'')"
      by (simp add: read_upload_def res sample_multipart)
    show ?thesis
      unfolding UploadFileMTOM_def ru
      by (simp add: sample_platform_def sanitizeFileName_def Let_def world_init_def)
  qed
  with rt show ?thesis by (simp add: soap_def)
qed

text \<open>
  An upload is served first, which adds a file to the state; the lookup of the identifier
  \<^verbatim>\<open>1\<close> after it finds the record the table was initialised with.
\<close>

theorem userDB_never_changes_witness:
  "uploads (snd (serve world_init
       [(sample_platform,
         mtom_request [xml_part (escaped_include ''file1''), binary_part ''<file1>'' ''first'',
           binary_part ''<file1>'' ''second''])])) =
     [''uploads/123e4567-e89b-12d3-a456-426614174000_hello.txt'' \<mapsto> ''first''] \<and>
   userDB (snd (serve world_init
       [(sample_platform,
         mtom_request [xml_part (escaped_include ''file1''), binary_part ''<file1>'' ''first'',
           binary_part ''<file1>'' ''second''])])) = userDB_init \<and>
   fst (GetUser sample_platform
          (snd (serve world_init
             [(sample_platform,
               mtom_request [xml_part (escaped_include ''file1''), binary_part ''<file1>'' ''first'',
                 binary_part ''<file1>'' ''second''])]))
          lookup_request) =
     sendSOAPResponse ''GetUserResponse''
       (GetUserResponse ''1'' [CHR 0xED, CHR 0x99, CHR 0x8D, CHR 0xEA, CHR 0xB8, CHR 0xB8, CHR 0xEB, CHR 0x8F, CHR 0x99]
          ''hong@example.com'' ''2024-01-01'')"
proof -
  let ?h = "[(sample_platform,
         mtom_request [xml_part (escaped_include ''file1''), binary_part ''<file1>'' ''first'',
           binary_part ''<file1>'' ''second''])]"
  have up: "uploads (snd (serve world_init ?h)) =
     [''uploads/123e4567-e89b-12d3-a456-426614174000_hello.txt'' \<mapsto> ''first'']"
    by (simp add: sample_upload)
  have dec: "xml_GetUserRequest sample_platform (Body lookup_request) = Inr ''1''"
    by (simp add: sample_platform_def lookup_request_def newReadCloser_def)
  note inst = userDB_never_changes [of sample_platform world_init lookup_request ?h sample_platform
      lookup_request "''1''"]
  from inst have a: "userDB (snd (serve world_init ?h)) = userDB world_init"
    by blast
  from inst dec have b: "fst (GetUser sample_platform (snd (serve world_init ?h)) lookup_request) =
        (case userDB world_init ''1'' of
           None \<Rightarrow>
             sendSOAPError ''Client'' ''User not found''
               (''User with ID '' @ ''1'' @ '' not found'')
         | Some user \<Rightarrow>
             sendSOAPResponse ''GetUserResponse''
               (GetUserResponse (ID user) (Name user) (Email user) (CreatedAt user)))"
    by blast
  have c: "userDB world_init = userDB_init"
    by (simp add: world_init_def)
  show ?thesis
    unfolding a b c up by (simp add: userDB_init_def)
qed

end
